theory Spec2Isabelle
  imports Main "HOL-Library.Word"
begin

section \<open>Basic types\<close>

text \<open>
  Go's \<open>int64\<close> is a 64-bit word read in two's complement (\<open>sint\<close>); \<open>+\<close> wraps
  around, as Go's signed addition does. Go's \<open>int\<close> is 64 bits wide on the platforms
  the node runs on and is modelled by the same type. A Go \<open>string\<close> is a sequence of
  bytes, \<open>len\<close> counts bytes and slicing cuts bytes: a \<open>char list\<close>.
\<close>

type_synonym int64 = "64 word"
type_synonym byte = "8 word"

text \<open>A Go call either returns or panics.\<close>

datatype 'a outcome = Return 'a | Panics

text \<open>
  Go errors. \<open>Errorf msg\<close> is the value of \<open>fmt.Errorf\<close> with the formatted message.
  \<open>errAccessDenied\<close>, \<open>ErrInvalidValue\<close>, \<open>ErrFounderAccount\<close> and
  \<open>errAccessRollbackContract\<close> are the package-level error values of
  \<open>packages/smart\<close> that \<open>smart_p.go\<close> returns by name.
  \<open>hex_ErrLength\<close> and \<open>hex_InvalidByteError\<close> are the two errors of
  \<open>encoding/hex\<close>.
\<close>

datatype error =
    Errorf string
  | errAccessDenied
  | ErrInvalidValue
  | ErrFounderAccount
  | errAccessRollbackContract
  | hex_ErrLength
  | hex_InvalidByteError char

section \<open>The fragment of package fmt that the sources use\<close>

text \<open>
  \<open>strconv.FormatInt(i, 10)\<close>: the digits are read from a table, most significant
  first, with a leading minus sign for a negative number.
\<close>

fun dec_nat :: "nat \<Rightarrow> string" where
  "dec_nat n =
     (if n < 10 then [''0123456789'' ! n]
      else dec_nat (n div 10) @ [''0123456789'' ! (n mod 10)])"

declare dec_nat.simps [simp del]

definition FormatInt :: "int \<Rightarrow> string" where
  "FormatInt i = (if i < 0 then CHR ''-'' # dec_nat (nat (- i)) else dec_nat (nat i))"

text \<open>
  The operands of a \<open>Sprintf\<close> call, by their Go type: the sources format strings,
  \<open>int\<close>, \<open>int64\<close> and \<open>uint64\<close> values.
\<close>

datatype fmt_arg =
    ArgString string
  | ArgInt int64
  | ArgInt64 int64
  | ArgUint64 "64 word"

definition goType :: "fmt_arg \<Rightarrow> string" where
  "goType a =
     (case a of ArgString _ \<Rightarrow> ''string'' | ArgInt _ \<Rightarrow> ''int''
      | ArgInt64 _ \<Rightarrow> ''int64'' | ArgUint64 _ \<Rightarrow> ''uint64'')"

text \<open>The default format (\<open>%v\<close>) of an operand.\<close>

definition fmt_v :: "fmt_arg \<Rightarrow> string" where
  "fmt_v a =
     (case a of ArgString s \<Rightarrow> s | ArgInt n \<Rightarrow> FormatInt (sint n)
      | ArgInt64 n \<Rightarrow> FormatInt (sint n) | ArgUint64 n \<Rightarrow> FormatInt (uint n))"

text \<open>
  One verb applied to one operand. \<open>%v\<close> takes any operand, \<open>%s\<close> a string,
  \<open>%d\<close> an integer; a verb that does not fit its operand prints
  \<open>%!verb(type=value)\<close>.
\<close>

definition badVerb :: "char \<Rightarrow> fmt_arg \<Rightarrow> string" where
  "badVerb v a = ''%!'' @ [v] @ ''('' @ goType a @ ''='' @ fmt_v a @ '')''"

definition printVerb :: "char \<Rightarrow> fmt_arg \<Rightarrow> string" where
  "printVerb v a =
     (if v = CHR ''v'' then fmt_v a
      else (case a of
              ArgString s \<Rightarrow> if v = CHR ''s'' then s else badVerb v a
            | _ \<Rightarrow> if v = CHR ''d'' then fmt_v a else badVerb v a))"

text \<open>Operands left over when the format ends: \<open>%!(EXTRA type=value, ...)\<close>.\<close>

fun extraList :: "fmt_arg list \<Rightarrow> string" where
  "extraList [] = []"
| "extraList [a] = goType a @ ''='' @ fmt_v a"
| "extraList (a # b # as) = goType a @ ''='' @ fmt_v a @ '', '' @ extraList (b # as)"

definition extraArgs :: "fmt_arg list \<Rightarrow> string" where
  "extraArgs as = (if as = [] then [] else ''%!(EXTRA '' @ extraList as @ '')'')"

text \<open>
  \<open>fmt.Sprintf\<close> over literal text, \<open>%%\<close> and the verbs \<open>%v\<close>, \<open>%s\<close>, \<open>%d\<close>:
  the format is read left to right, a verb consumes the next operand, a verb with no
  operand left prints \<open>%!verb(MISSING)\<close>, a lone \<open>%\<close> at the end prints
  \<open>%!(NOVERB)\<close>. Flags, widths, precisions and the other verbs of Go are not
  interpreted: no format of the sources uses them.
\<close>

fun Sprintf :: "string \<Rightarrow> fmt_arg list \<Rightarrow> string" where
  "Sprintf [] as = extraArgs as"
| "Sprintf [c] as =
     (if c = CHR ''%'' then ''%!(NOVERB)'' @ extraArgs as else c # extraArgs as)"
| "Sprintf (c # v # fs) [] =
     (if c = CHR ''%''
      then (if v = CHR ''%'' then CHR ''%'' # Sprintf fs []
            else ''%!'' @ [v] @ ''(MISSING)'' @ Sprintf fs [])
      else c # Sprintf (v # fs) [])"
| "Sprintf (c # v # fs) (a # as) =
     (if c = CHR ''%''
      then (if v = CHR ''%'' then CHR ''%'' # Sprintf fs (a # as)
            else printVerb v a @ Sprintf fs as)
      else c # Sprintf (v # fs) (a # as))"

section \<open>packages/utils/tx/smart.go\<close>

text \<open>
  The header embedded in the transaction: of its fields, \<open>ForSign\<close> reads
  \<open>Type\<close> (a Go \<open>int\<close>), \<open>Time\<close>, \<open>KeyID\<close> and \<open>EcosystemID\<close>.
\<close>

record Header =
  Type :: int64
  Time :: int64
  EcosystemID :: int64
  KeyID :: int64

record tx_SmartContract = Header +
  RequestID :: string
  TokenEcosystem :: int64
  MaxSum :: string
  PayOver :: string
  SignedBy :: int64
  Data :: "byte list"

definition ForSign :: "tx_SmartContract \<Rightarrow> string" where
  "ForSign s =
     Sprintf ''%s,%d,%d,%d,%d,%d,%s,%s,%d''
       [ArgString (RequestID s), ArgInt (Type s), ArgInt64 (Time s), ArgInt64 (KeyID s),
        ArgInt64 (EcosystemID s), ArgInt64 (TokenEcosystem s), ArgString (MaxSum s),
        ArgString (PayOver s), ArgInt64 (SignedBy s)]"

text \<open>
  The wire format as the specification words it: the nine fields, each as text (the
  integers in decimal), joined by commas.
\<close>

fun join_commas :: "string list \<Rightarrow> string" where
  "join_commas [] = []"
| "join_commas [x] = x"
| "join_commas (x # y # xs) = x @ '','' @ join_commas (y # xs)"

definition decimal :: "int64 \<Rightarrow> string" where
  "decimal n = FormatInt (sint n)"

definition signable_fields :: "tx_SmartContract \<Rightarrow> string list" where
  "signable_fields s =
     [RequestID s, decimal (Type s), decimal (Time s), decimal (KeyID s),
      decimal (EcosystemID s), decimal (TokenEcosystem s), MaxSum s, PayOver s,
      decimal (SignedBy s)]"

section \<open>packages/smart/smart_p.go: the functions without state\<close>

subsection \<open>Substr\<close>

text \<open>
  Go's slice expressions on a string: \<open>s[lo:hi]\<close> panics unless
  \<open>0 \<le> lo \<le> hi \<le> len(s)\<close>, and \<open>s[lo:]\<close> is \<open>s[lo:len(s)]\<close>.
\<close>

definition go_slice :: "string \<Rightarrow> int \<Rightarrow> int \<Rightarrow> string outcome" where
  "go_slice s lo hi =
     (if 0 \<le> lo \<and> lo \<le> hi \<and> hi \<le> int (length s)
      then Return (take (nat hi - nat lo) (drop (nat lo) s))
      else Panics)"

definition go_slice_from :: "string \<Rightarrow> int \<Rightarrow> string outcome" where
  "go_slice_from s lo = go_slice s lo (int (length s))"

text \<open>
  \<open>Substr\<close>, lines 519-528. The comparisons are signed; \<open>off + slen\<close> is the
  64-bit sum, which wraps around.
\<close>

definition Substr :: "string \<Rightarrow> int64 \<Rightarrow> int64 \<Rightarrow> string outcome" where
  "Substr s off slen =
     (let ilen = (word_of_nat (length s) :: int64) in
      if off <s 0 \<or> slen <s 0 \<or> ilen <s off then Return []
      else if ilen <s off + slen then go_slice_from s (sint off)
      else go_slice s (sint off) (sint (off + slen)))"

subsection \<open>encoding/hex and PubToID\<close>

text \<open>
  \<open>hex.DecodeString\<close>: the digits are looked up in a table, two per byte; the
  call returns the bytes decoded before the first error together with the error
  (\<open>InvalidByteError\<close> for a byte that is no hexadecimal digit, \<open>ErrLength\<close> for
  an odd number of digits).
\<close>

definition reverseHexTable :: "(char \<times> nat) list" where
  "reverseHexTable =
     zip ''0123456789'' [0 ..< 10] @ zip ''abcdef'' [10 ..< 16] @ zip ''ABCDEF'' [10 ..< 16]"

definition fromHexChar :: "char \<Rightarrow> nat option" where
  "fromHexChar c = map_of reverseHexTable c"

fun hex_DecodeString :: "string \<Rightarrow> byte list \<times> error option" where
  "hex_DecodeString [] = ([], None)"
| "hex_DecodeString [p] =
     (case fromHexChar p of
        None \<Rightarrow> ([], Some (hex_InvalidByteError p))
      | Some _ \<Rightarrow> ([], Some hex_ErrLength))"
| "hex_DecodeString (p # q # src) =
     (case fromHexChar p of
        None \<Rightarrow> ([], Some (hex_InvalidByteError p))
      | Some a \<Rightarrow>
          (case fromHexChar q of
             None \<Rightarrow> ([], Some (hex_InvalidByteError q))
           | Some b \<Rightarrow>
               (case hex_DecodeString src of
                  (bs, err) \<Rightarrow> (word_of_nat (a * 16 + b) # bs, err))))"

text \<open>
  Valid hexadecimal, as the documentation of \<open>encoding/hex\<close> words it: only
  hexadecimal characters, and an even number of them.
\<close>

definition is_hex_digit :: "char \<Rightarrow> bool" where
  "is_hex_digit c = (c \<in> set ''0123456789abcdefABCDEF'')"

definition valid_hex :: "string \<Rightarrow> bool" where
  "valid_hex s = (even (length s) \<and> list_all is_hex_digit s)"

text \<open>
  \<open>PubToID\<close>, lines 319-326. \<open>crypto.Address\<close> is not among the sources and is the
  parameter \<open>Address\<close>. The log entry written on the error path is left out here:
  the function returns a bare \<open>int64\<close>.
\<close>

definition PubToID :: "(byte list \<Rightarrow> int64) \<Rightarrow> string \<Rightarrow> int64" where
  "PubToID Address hexkey =
     (case hex_DecodeString hexkey of
        (pubkey, Some err) \<Rightarrow> 0
      | (pubkey, None) \<Rightarrow> Address pubkey)"

subsection \<open>getCostP\<close>

text \<open>The table \<open>extendCostSysParams\<close>, lines 50-82.\<close>

definition extendCostSysParams :: "(string \<times> string) list" where
  "extendCostSysParams =
     [(''AddressToId'', ''extend_cost_address_to_id''),
      (''IdToAddress'', ''extend_cost_id_to_address''),
      (''NewState'', ''extend_cost_new_state''),
      (''Sha256'', ''extend_cost_sha256''),
      (''PubToID'', ''extend_cost_pub_to_id''),
      (''EcosysParam'', ''extend_cost_ecosys_param''),
      (''SysParamString'', ''extend_cost_sys_param_string''),
      (''SysParamInt'', ''extend_cost_sys_param_int''),
      (''SysFuel'', ''extend_cost_sys_fuel''),
      (''ValidateCondition'', ''extend_cost_validate_condition''),
      (''EvalCondition'', ''extend_cost_eval_condition''),
      (''HasPrefix'', ''extend_cost_has_prefix''),
      (''Contains'', ''extend_cost_contains''),
      (''Replace'', ''extend_cost_replace''),
      (''Join'', ''extend_cost_join''),
      (''Size'', ''extend_cost_size''),
      (''Substr'', ''extend_cost_substr''),
      (''Eval'', ''extend_cost_eval''),
      (''Len'', ''extend_cost_len''),
      (''Activate'', ''extend_cost_activate''),
      (''Deactivate'', ''extend_cost_deactivate''),
      (''CreateEcosystem'', ''extend_cost_create_ecosystem''),
      (''TableConditions'', ''extend_cost_table_conditions''),
      (''CreateTable'', ''extend_cost_create_table''),
      (''PermTable'', ''extend_cost_perm_table''),
      (''ColumnCondition'', ''extend_cost_column_condition''),
      (''CreateColumn'', ''extend_cost_create_column''),
      (''PermColumn'', ''extend_cost_perm_column''),
      (''JSONToMap'', ''extend_cost_json_to_map''),
      (''GetContractByName'', ''extend_cost_contract_by_name''),
      (''GetContractById'', ''extend_cost_contract_by_id'')]"

text \<open>
  \<open>getCostP\<close>, lines 111-116. \<open>syspar.HasSys\<close> and \<open>syspar.SysInt64\<close> read the
  cache of system parameters; they are not among the sources and are the parameters
  \<open>HasSys\<close> and \<open>SysInt64\<close>.
\<close>

definition getCostP :: "(string \<Rightarrow> bool) \<Rightarrow> (string \<Rightarrow> int64) \<Rightarrow> string \<Rightarrow> int64" where
  "getCostP HasSys SysInt64 name =
     (case map_of extendCostSysParams name of
        Some key \<Rightarrow> if HasSys key then SysInt64 key else - 1
      | None \<Rightarrow> - 1)"

text \<open>
  The parameter name as the specification words it: \<open>extend_cost_\<close> followed by the
  name of the host function.
\<close>

definition extend_cost_name :: "string \<Rightarrow> string" where
  "extend_cost_name n = ''extend_cost_'' @ n"

text \<open>A cache in which every parameter exists and has the value 7.\<close>

definition every_param_exists :: "string \<Rightarrow> bool" where
  "every_param_exists key = True"

definition every_param_seven :: "string \<Rightarrow> int64" where
  "every_param_seven key = 7"

section \<open>packages/smart/smart_p.go: the host functions with state\<close>

subsection \<open>The call context, dynamic values and the record of host calls\<close>

text \<open>
  The fields of the call context \<open>*SmartContract\<close> (package smart) that
  \<open>smart_p.go\<close> reads or writes. \<open>TxContract_Name\<close> is \<open>sc.TxContract.Name\<close>,
  \<open>TxSmart_EcosystemID\<close> is \<open>sc.TxSmart.EcosystemID\<close>. Of the VM behind
  \<open>sc.VM\<close> the model keeps what \<open>RollbackContract\<close> changes in place: the list
  \<open>Children\<close> of compiled blocks and the symbol table \<open>Objects\<close>, a list of names
  with their entries. The database transaction is not a value of the model: what is
  done through it is recorded as host calls.
\<close>

typedecl Block
typedecl ObjInfo

record VM =
  Children :: "Block list"
  Objects :: "(string \<times> ObjInfo) list"

record SmartContract =
  VDE :: bool
  Rollback :: bool
  FullAccess :: bool
  SysUpdate :: bool
  TxContract_Name :: string
  TxSmart_EcosystemID :: int64
  PublicKeys :: "byte list list"
  VM :: VM

text \<open>
  A value of type \<open>interface{}\<close>: nil, a string, an \<open>int64\<close>, the call context,
  a \<open>map[string]interface{}\<close> (a row of a query), or a value of any other type,
  which stands with a description of it.
\<close>

datatype dyn =
    DNil
  | DString string
  | DInt64 int64
  | DSmartContract SmartContract
  | DMap "(string \<times> dyn) list"
  | DOther string

text \<open>The \<open>type\<close> field of a log entry (package consts).\<close>

datatype log_type =
    DBError | NotFound | EvalError | AccessDenied | InvalidObject | JSONUnmarshallError
  | EmptyObject | IncorrectCallingContract | ConversionError | CryptoError

text \<open>
  The calls that \<open>smart_p.go\<close> makes into the state-access layer, the VM and the
  caches, each with the arguments it is given. These functions are not among the
  sources: the model records the call and takes its result as a parameter.
  \<open>Call_selectiveLoggingAndUpd fields values table whereFields whereValues logRollback
  mustExist\<close> is \<open>sc.selectiveLoggingAndUpd\<close>; \<open>DBInsert\<close> and \<open>DBUpdate\<close> receive
  the call context and are recorded with it.
\<close>

datatype host_call =
    Call_selectiveLoggingAndUpd "string list" "dyn list" string "string list" "string list" bool bool
  | Call_SysUpdate
  | Call_SysRollback string
  | Call_ActivateContract int64 int64 bool
  | Call_DBInsert SmartContract string string "dyn list"
  | Call_DBUpdate SmartContract string int64 string "dyn list"
  | Call_ExecSchemaEcosystem int64 int64 string int64
  | Call_LoadContract string
  | Call_UpdateLang int64 int64 string string bool

text \<open>
  What a run leaves behind: the host calls made so far, oldest first, and the entries
  written to the log (type and message).
\<close>

record world =
  calls :: "host_call list"
  logs :: "(log_type \<times> string) list"

definition log_Error :: "log_type \<Rightarrow> string \<Rightarrow> world \<Rightarrow> world" where
  "log_Error t msg w = w\<lparr>logs := logs w @ [(t, msg)]\<rparr>"

definition host :: "host_call \<Rightarrow> world \<Rightarrow> world" where
  "host c w = w\<lparr>calls := calls w @ [c]\<rparr>"

text \<open>The host calls a run added to the record.\<close>

definition issued :: "world \<Rightarrow> world \<Rightarrow> host_call list" where
  "issued w w' = drop (length (calls w)) (calls w')"

text \<open>The rows and structures that the functions below read.\<close>

record SystemParameter =
  par_ID :: int64
  par_Name :: string
  par_Value :: string
  par_Conditions :: string

record SignRes =
  SignRes_Param :: string
  SignRes_Text :: string

record TxSignJSON =
  sign_ForSign :: string
  sign_Field :: string
  sign_Title :: string
  sign_Params :: "SignRes list"

typedecl FullNode

text \<open>
  A contract as \<open>VMGetContract\<close> returns it: its name, and the \<open>ID\<close> of its
  \<open>Block.Info\<close> when that is a \<open>*script.ContractInfo\<close>.
\<close>

record Contract =
  Contract_Name :: string
  Contract_Info_ID :: "32 word option"

subsection \<open>The functions that are not among the sources\<close>

text \<open>
  Every function of the repository (and of \<open>encoding/json\<close>) that \<open>smart_p.go\<close> calls
  and that is not among the sources is a field of the environment. A function that
  reads the database, the VM or a cache takes the host calls made so far as its first
  argument, so that its answer may depend on every earlier write. The result of a host
  call is given by the \<open>ret_\<close> field of its name, applied to the record that ends with
  this call. \<open>Error_string\<close> is the method \<open>Error()\<close> of an error,
  \<open>FullNodes\<close> the constant \<open>syspar.FullNodes\<close>, \<open>Single_String\<close> the call
  \<open>model.Single(query, arg).String()\<close>, and the three \<open>Unmarshal_\<close> fields are
  \<open>json.Unmarshal\<close> into a \<open>[][]string\<close>, a \<open>[]syspar.FullNode\<close> and a
  \<open>TxSignJSON\<close>.
\<close>

record env =
  StrToInt64 :: "string \<Rightarrow> int64"
  Int64ToStr :: "int64 \<Rightarrow> string"
  Error_string :: "error \<Rightarrow> string"
  VMGetContract :: "VM \<Rightarrow> string \<Rightarrow> 32 word \<Rightarrow> Contract option"
  FullNodes :: string
  SysString :: "host_call list \<Rightarrow> string \<Rightarrow> string"
  CheckSign :: "byte list list \<Rightarrow> string \<Rightarrow> byte list \<Rightarrow> bool \<Rightarrow> error + bool"
  ParseContract :: "string \<Rightarrow> 32 word \<times> string"
  Len :: "dyn list \<Rightarrow> int64"
  Sprint :: "dyn \<Rightarrow> string"
  Unmarshal_list :: "string \<Rightarrow> error + string list list"
  Unmarshal_FullNodes :: "string \<Rightarrow> error + FullNode list"
  Unmarshal_TxSignJSON :: "string \<Rightarrow> error + TxSignJSON"
  SystemParameter_Get :: "host_call list \<Rightarrow> string \<Rightarrow> error + SystemParameter option"
  StateParameter_Get :: "host_call list \<Rightarrow> string \<Rightarrow> string \<Rightarrow> error + bool \<times> string"
  GetNextID :: "host_call list \<Rightarrow> string \<Rightarrow> error + int64"
  Single_String :: "host_call list \<Rightarrow> string \<Rightarrow> string \<Rightarrow> error + string"
  EvalIf :: "host_call list \<Rightarrow> SmartContract \<Rightarrow> string \<Rightarrow> error + bool"
  CompileEval :: "host_call list \<Rightarrow> string \<Rightarrow> 32 word \<Rightarrow> error option"
  getDefTableName :: "SmartContract \<Rightarrow> string \<Rightarrow> string"
  AccessTable :: "host_call list \<Rightarrow> SmartContract \<Rightarrow> string \<Rightarrow> string \<Rightarrow> error option"
  AccessColumns ::
    "host_call list \<Rightarrow> SmartContract \<Rightarrow> string \<Rightarrow> string list \<Rightarrow> bool \<Rightarrow> error + string list"
  DBSelect ::
    "host_call list \<Rightarrow> SmartContract \<Rightarrow> string \<Rightarrow> string \<Rightarrow> int64 \<Rightarrow> string \<Rightarrow> int64 \<Rightarrow>
       int64 \<Rightarrow> int64 \<Rightarrow> string \<Rightarrow> dyn list \<Rightarrow> error + dyn list"
  ret_selectiveLoggingAndUpd :: "host_call list \<Rightarrow> int64 \<times> string \<times> error option"
  ret_SysUpdate :: "host_call list \<Rightarrow> error option"
  ret_SysRollback :: "host_call list \<Rightarrow> error option"
  ret_DBInsert :: "host_call list \<Rightarrow> int64 \<times> int64 \<times> error option"
  ret_DBUpdate :: "host_call list \<Rightarrow> int64 \<times> error option"
  ret_ExecSchemaEcosystem :: "host_call list \<Rightarrow> error option"
  ret_LoadContract :: "host_call list \<Rightarrow> error option"

definition selectiveLoggingAndUpd ::
  "env \<Rightarrow> string list \<Rightarrow> dyn list \<Rightarrow> string \<Rightarrow> string list \<Rightarrow> string list \<Rightarrow> bool \<Rightarrow> bool \<Rightarrow>
     world \<Rightarrow> (int64 \<times> string \<times> error option) \<times> world" where
  "selectiveLoggingAndUpd E flds vals table whereFields whereValues logRollback mustExist w =
     (let w1 = host (Call_selectiveLoggingAndUpd flds vals table whereFields whereValues
                       logRollback mustExist) w
      in (ret_selectiveLoggingAndUpd E (calls w1), w1))"

definition SysRollback :: "env \<Rightarrow> string \<Rightarrow> world \<Rightarrow> error option \<times> world" where
  "SysRollback E data w =
     (let w1 = host (Call_SysRollback data) w in (ret_SysRollback E (calls w1), w1))"

definition DBInsert ::
  "env \<Rightarrow> SmartContract \<Rightarrow> string \<Rightarrow> string \<Rightarrow> dyn list \<Rightarrow> world \<Rightarrow>
     (int64 \<times> int64 \<times> error option) \<times> world" where
  "DBInsert E sc tblname params val w =
     (let w1 = host (Call_DBInsert sc tblname params val) w in (ret_DBInsert E (calls w1), w1))"

definition DBUpdate ::
  "env \<Rightarrow> SmartContract \<Rightarrow> string \<Rightarrow> int64 \<Rightarrow> string \<Rightarrow> dyn list \<Rightarrow> world \<Rightarrow>
     (int64 \<times> error option) \<times> world" where
  "DBUpdate E sc tblname rid params val w =
     (let w1 = host (Call_DBUpdate sc tblname rid params val) w in (ret_DBUpdate E (calls w1), w1))"

text \<open>\<open>SysParamString\<close>, lines 246-248.\<close>

definition SysParamString :: "env \<Rightarrow> host_call list \<Rightarrow> string \<Rightarrow> string" where
  "SysParamString E h name = SysString E h name"

text \<open>
  Modelled from the spec: \<open>accessContracts\<close> (package smart) is not among the
  sources. The specification names the callers with their prefix (\<open>CreateLanguage\<close>
  only from \<open>@1NewLang\<close>, \<open>@1NewLangJoint\<close>, \<open>@1Import\<close>) where the code passes the
  bare names: the caller's contract name is \<open>@1\<close> followed by one of the names.
\<close>

definition accessContracts :: "SmartContract \<Rightarrow> string list \<Rightarrow> bool" where
  "accessContracts sc names = (TxContract_Name sc \<in> set (map (\<lambda>item. ''@1'' @ item) names))"

definition nActivateContract :: string where
  "nActivateContract = ''ActivateContract''"

definition nDeactivateContract :: string where
  "nDeactivateContract = ''DeactivateContract''"

definition nImport :: string where
  "nImport = ''Import''"

definition nNewContract :: string where
  "nNewContract = ''NewContract''"

subsection \<open>Package strings and formatting of dynamic values\<close>

definition strings_HasPrefix :: "string \<Rightarrow> string \<Rightarrow> bool" where
  "strings_HasPrefix s p = (take (length p) s = p)"

fun strings_Contains :: "string \<Rightarrow> string \<Rightarrow> bool" where
  "strings_Contains [] sub = (sub = [])"
| "strings_Contains (c # s) sub = (strings_HasPrefix (c # s) sub \<or> strings_Contains s sub)"

text \<open>\<open>strings.Split(s, sep)\<close> for a separator of one byte.\<close>

fun split_byte :: "char \<Rightarrow> string \<Rightarrow> string list" where
  "split_byte sep [] = [[]]"
| "split_byte sep (c # s) =
     (if c = sep then [] # split_byte sep s
      else (case split_byte sep s of [] \<Rightarrow> [[c]] | x # xs \<Rightarrow> (c # x) # xs))"

text \<open>A string between double quotes.\<close>

definition dq :: "string \<Rightarrow> string" where
  "dq s = [CHR 0x22] @ s @ [CHR 0x22]"

text \<open>
  The default format of a dynamic value (\<open>fmt.Sprint(v)\<close>, \<open>%v\<close>): a string as it
  is, an \<open>int64\<close> in decimal; the text of any other value is the parameter
  \<open>Sprint\<close>.
\<close>

definition fmt_dyn :: "env \<Rightarrow> dyn \<Rightarrow> string" where
  "fmt_dyn E v = (case v of DString s \<Rightarrow> s | DInt64 n \<Rightarrow> decimal n | _ \<Rightarrow> Sprint E v)"

subsection \<open>UpdateSysParam\<close>

text \<open>
  The loop of lines 170-179 over the decoded list: \<open>False\<close> when an item leaves the
  loop through \<open>break check\<close>, \<open>True\<close> when the loop runs to its end.
\<close>

fun checkItems :: "env \<Rightarrow> string \<Rightarrow> string list list \<Rightarrow> bool" where
  "checkItems E name [] = True"
| "checkItems E name (item # list) =
     (if (name = ''fuel_rate'' \<or> name = ''commission_wallet'') \<and>
         (length item \<noteq> 2 \<or> sint (StrToInt64 E (item ! 0)) \<le> 0 \<or>
          (name = ''fuel_rate'' \<and> sint (StrToInt64 E (item ! 1)) \<le> 0) \<or>
          (name = ''commission_wallet'' \<and> StrToInt64 E (item ! 1) = 0))
      then False
      else checkItems E name list)"

text \<open>
  The switch of lines 153-193 on the parameter's name: \<open>Inl err\<close> is the return of
  line 168, \<open>Inr (ok, checked)\<close> the two flags after the switch.
\<close>

definition checkValue :: "env \<Rightarrow> string \<Rightarrow> string \<Rightarrow> error + bool \<times> bool" where
  "checkValue E name val =
     (let ival = StrToInt64 E val in
      if name = ''gap_between_blocks'' then Inr (0 < sint ival \<and> sint ival < 86400, False)
      else if name \<in> set [''rb_blocks_1'', ''number_of_nodes'']
        then Inr (0 < sint ival \<and> sint ival < 1000, False)
      else if name \<in> set [''ecosystem_price'', ''contract_price'', ''column_price'',
                 ''table_price'', ''menu_price'', ''page_price'', ''commission_size'']
        then Inr (0 \<le> sint ival, False)
      else if name \<in> set [''max_block_size'', ''max_tx_size'', ''max_tx_count'', ''max_columns'',
                 ''max_indexes'', ''max_block_user_tx'', ''max_fuel_tx'', ''max_fuel_block'',
                 ''max_forsign_size'']
        then Inr (0 < sint ival, False)
      else if name \<in> set [''fuel_rate'', ''commission_wallet'']
        then (case Unmarshal_list E val of
                Inl err \<Rightarrow> Inl err
              | Inr list \<Rightarrow> Inr (False, checkItems E name list))
      else if name = FullNodes E
        then (case Unmarshal_FullNodes E val of
                Inl err \<Rightarrow> Inr (False, False)
              | Inr fnodes \<Rightarrow> Inr (False, length fnodes > 0))
      else if strings_HasPrefix name ''extend_cost_'' then Inr (0 \<le> sint ival, False)
      else Inr (False, True))"

text \<open>Lines 124-145: the parameter's row and its conditions.\<close>

definition sysParamAccess ::
  "env \<Rightarrow> SmartContract \<Rightarrow> string \<Rightarrow> world \<Rightarrow> (error + SystemParameter) \<times> world" where
  "sysParamAccess E sc name w =
     (case SystemParameter_Get E (calls w) name of
        Inl err \<Rightarrow> (Inl err, log_Error DBError ''system parameter get'' w)
      | Inr None \<Rightarrow>
          (Inl (Errorf (Sprintf ''Parameter %s has not been found'' [ArgString name])),
           log_Error NotFound ''system parameter get'' w)
      | Inr (Some par) \<Rightarrow>
          (let cond = par_Conditions par in
           if length cond > 0
           then (case EvalIf E (calls w) sc cond of
                   Inl err \<Rightarrow> (Inl err, log_Error EvalError ''evaluating conditions'' w)
                 | Inr ret \<Rightarrow>
                     if \<not> ret then (Inl errAccessDenied, log_Error AccessDenied ''Access denied'' w)
                     else (Inr par, w))
           else (Inr par, w)))"

text \<open>
  Lines 146-200: the check of the new value; the result is the lists \<open>fields\<close> and
  \<open>values\<close>.
\<close>

definition sysParamValue ::
  "env \<Rightarrow> string \<Rightarrow> string \<Rightarrow> world \<Rightarrow> (error + string list \<times> dyn list) \<times> world" where
  "sysParamValue E name val w =
     (if length val > 0
      then (case checkValue E name val of
              Inl err \<Rightarrow> (Inl err, log_Error JSONUnmarshallError ''unmarshalling system param'' w)
            | Inr (ok, checked) \<Rightarrow>
                if \<not> checked \<and> (\<not> ok \<or> Int64ToStr E (StrToInt64 E val) \<noteq> val)
                then (Inl ErrInvalidValue,
                      log_Error InvalidObject (Error_string E ErrInvalidValue) w)
                else (Inr ([''value''], [DString val]), w))
      else (Inr ([], []), w))"

text \<open>Lines 201-208: the new conditions.\<close>

definition sysParamConditions ::
  "env \<Rightarrow> string \<Rightarrow> string list \<Rightarrow> dyn list \<Rightarrow> world \<Rightarrow>
     (error + string list \<times> dyn list) \<times> world" where
  "sysParamConditions E conditions flds vals w =
     (if length conditions > 0
      then (case CompileEval E (calls w) conditions 0 of
              Some err \<Rightarrow> (Inl err, log_Error EvalError ''compiling eval'' w)
            | None \<Rightarrow> (Inr (flds @ [''conditions''], vals @ [DString conditions]), w))
      else (Inr (flds, vals), w))"

text \<open>Lines 209-223: the write and the reload of the cache.\<close>

definition sysParamWrite ::
  "env \<Rightarrow> SmartContract \<Rightarrow> SystemParameter \<Rightarrow> string list \<Rightarrow> dyn list \<Rightarrow> world \<Rightarrow>
     (error + int64) \<times> SmartContract \<times> world" where
  "sysParamWrite E sc par flds vals w =
     (if length flds = 0
      then (Inl (Errorf ''empty value and condition''),
            sc, log_Error EmptyObject ''empty value and condition'' w)
      else (case selectiveLoggingAndUpd E flds vals ''1_system_parameters'' [''id'']
                   [Int64ToStr E (par_ID par)] (\<not> VDE sc \<and> Rollback sc) False w of
              ((qcost, rowid, Some err), w1) \<Rightarrow> (Inl err, sc, w1)
            | ((qcost, rowid, None), w1) \<Rightarrow>
                (let w2 = host Call_SysUpdate w1 in
                 case ret_SysUpdate E (calls w2) of
                   Some err \<Rightarrow> (Inl err, sc, log_Error DBError ''updating syspar'' w2)
                 | None \<Rightarrow> (Inr 0, sc\<lparr>SysUpdate := True\<rparr>, w2))))"

text \<open>\<open>UpdateSysParam\<close>, lines 119-224.\<close>

definition UpdateSysParam ::
  "env \<Rightarrow> SmartContract \<Rightarrow> string \<Rightarrow> string \<Rightarrow> string \<Rightarrow> world \<Rightarrow>
     (error + int64) \<times> SmartContract \<times> world" where
  "UpdateSysParam E sc name val conditions w =
     (case sysParamAccess E sc name w of
        (Inl err, w1) \<Rightarrow> (Inl err, sc, w1)
      | (Inr par, w1) \<Rightarrow>
          (case sysParamValue E name val w1 of
             (Inl err, w2) \<Rightarrow> (Inl err, sc, w2)
           | (Inr (flds, vals), w2) \<Rightarrow>
               (case sysParamConditions E conditions flds vals w2 of
                  (Inl err, w3) \<Rightarrow> (Inl err, sc, w3)
                | (Inr (flds', vals'), w3) \<Rightarrow> sysParamWrite E sc par flds' vals' w3)))"

subsection \<open>DBUpdateExt\<close>

text \<open>
  \<open>DBUpdateExt\<close>, lines 227-243. The result is the pair of the named results
  \<open>qcost\<close> and \<open>err\<close>.
\<close>

definition DBUpdateExt ::
  "env \<Rightarrow> SmartContract \<Rightarrow> string \<Rightarrow> string \<Rightarrow> dyn \<Rightarrow> string \<Rightarrow> dyn list \<Rightarrow> world \<Rightarrow>
     (int64 \<times> error option) \<times> world" where
  "DBUpdateExt E sc tblname0 column v params val w =
     (let tblname = getDefTableName E sc tblname0 in
      case AccessTable E (calls w) sc tblname ''update'' of
        Some err \<Rightarrow> ((0, Some err), w)
      | None \<Rightarrow>
          if strings_Contains tblname ''_reports_''
          then ((0, Some (Errorf ''Access denied to report table'')), w)
          else (case AccessColumns E (calls w) sc tblname (split_byte CHR '','' params) True of
                  Inl err \<Rightarrow> ((0, Some err), w)
                | Inr columns \<Rightarrow>
                    (case selectiveLoggingAndUpd E columns val tblname [column] [fmt_dyn E v]
                            (\<not> VDE sc \<and> Rollback sc) True w of
                       ((qcost, rowid, err), w1) \<Rightarrow> ((qcost, err), w1))))"

subsection \<open>Activate and Deactivate\<close>

text \<open>
  \<open>Activate\<close>, lines 531-544, and \<open>Deactivate\<close>, lines 547-560.
  \<open>ActivateContract\<close> (package smart) returns nothing and is recorded as a host
  call.
\<close>

definition Activate ::
  "env \<Rightarrow> SmartContract \<Rightarrow> int64 \<Rightarrow> int64 \<Rightarrow> world \<Rightarrow> error option \<times> world" where
  "Activate E sc tblid state w =
     (if \<not> accessContracts sc [nActivateContract, nDeactivateContract]
      then (Some (Errorf
              ''ActivateContract can be only called from @1ActivateContract or @1DeactivateContract''),
            log_Error IncorrectCallingContract
              ''ActivateContract can be only called from @1ActivateContract or @1DeactivateContract'' w)
      else (let w1 = host (Call_ActivateContract tblid state True) w in
            if \<not> VDE sc
            then SysRollback E
                   (Sprintf (''{'' @ dq ''Type'' @ '': '' @ dq ''ActivateContract'' @ '', '' @
                             dq ''Id'' @ '': '' @ dq ''%d'' @ '', '' @ dq ''State'' @ '': '' @
                             dq ''%d'' @ ''}'')
                      [ArgInt64 tblid, ArgInt64 state]) w1
            else (None, w1)))"

definition Deactivate ::
  "env \<Rightarrow> SmartContract \<Rightarrow> int64 \<Rightarrow> int64 \<Rightarrow> world \<Rightarrow> error option \<times> world" where
  "Deactivate E sc tblid state w =
     (if \<not> accessContracts sc [nActivateContract, nDeactivateContract]
      then (Some (Errorf
              ''DeactivateContract can be only called from @1ActivateContract or @1DeactivateContract''),
            log_Error IncorrectCallingContract
              ''DeactivateContract can be only called from @1ActivateContract or @1DeactivateContract'' w)
      else (let w1 = host (Call_ActivateContract tblid state False) w in
            if \<not> VDE sc
            then SysRollback E
                   (Sprintf (''{'' @ dq ''Type'' @ '': '' @ dq ''DeactivateContract'' @ '', '' @
                             dq ''Id'' @ '': '' @ dq ''%d'' @ '', '' @ dq ''State'' @ '': '' @
                             dq ''%d'' @ ''}'')
                      [ArgInt64 tblid, ArgInt64 state]) w1
            else (None, w1)))"

subsection \<open>CreateLanguage, EditLanguage and EditEcosysName\<close>

text \<open>
  \<open>CreateLanguage\<close>, lines 340-352. \<open>language.UpdateLang\<close> returns nothing and is
  recorded as a host call.
\<close>

definition CreateLanguage ::
  "env \<Rightarrow> SmartContract \<Rightarrow> string \<Rightarrow> string \<Rightarrow> int64 \<Rightarrow> world \<Rightarrow> (error + int64) \<times> world" where
  "CreateLanguage E sc name transl appID w =
     (if \<not> accessContracts sc [''NewLang'', ''NewLangJoint'', ''Import'']
      then (Inl (Errorf ''CreateLanguage can be only called from @1NewLang, @1NewLangJoint, @1Import''),
            log_Error IncorrectCallingContract
              ''CreateLanguage can be only called from @1NewLang, @1NewLangJoint, @1Import'' w)
      else (let idStr = Int64ToStr E (TxSmart_EcosystemID sc) in
            case DBInsert E sc (''@'' @ idStr @ ''_languages'') ''name,res,app_id''
                   [DString name, DString transl, DInt64 appID] w of
              ((qcost, lid, Some err), w1) \<Rightarrow>
                (Inl err, log_Error DBError ''inserting new language'' w1)
            | ((qcost, lid, None), w1) \<Rightarrow>
                (Inr lid,
                 host (Call_UpdateLang (TxSmart_EcosystemID sc) appID name transl (VDE sc)) w1)))"

text \<open>\<open>EditLanguage\<close>, lines 355-367.\<close>

definition EditLanguage ::
  "env \<Rightarrow> SmartContract \<Rightarrow> int64 \<Rightarrow> string \<Rightarrow> string \<Rightarrow> int64 \<Rightarrow> world \<Rightarrow> error option \<times> world" where
  "EditLanguage E sc lid name transl appID w =
     (if \<not> accessContracts sc [''EditLang'', ''EditLangJoint'', ''Import'']
      then (Some (Errorf
              ''EditLanguage can be only called from @1EditLang, @1EditLangJoint and @1Import''),
            log_Error IncorrectCallingContract
              ''EditLanguage can be only called from @1EditLang, @1EditLangJoint and @1Import'' w)
      else (let idStr = Int64ToStr E (TxSmart_EcosystemID sc) in
            case DBUpdate E sc (''@'' @ idStr @ ''_languages'') lid ''name,res,app_id''
                   [DString name, DString transl, DInt64 appID] w of
              ((qcost, Some err), w1) \<Rightarrow> (Some err, log_Error DBError ''inserting new language'' w1)
            | ((qcost, None), w1) \<Rightarrow>
                (None,
                 host (Call_UpdateLang (TxSmart_EcosystemID sc) appID name transl (VDE sc)) w1)))"

text \<open>\<open>EditEcosysName\<close>, lines 503-511.\<close>

definition EditEcosysName ::
  "env \<Rightarrow> SmartContract \<Rightarrow> int64 \<Rightarrow> string \<Rightarrow> world \<Rightarrow> error option \<times> world" where
  "EditEcosysName E sc sysID newName w =
     (if TxContract_Name sc \<noteq> ''@1EditEcosystemName''
      then (Some (Errorf ''EditEcosystemName can be only called from @1EditEcosystemName''),
            log_Error IncorrectCallingContract
              ''EditEcosystemName can be only called from @1EditEcosystemName'' w)
      else (case DBUpdate E sc ''@1_ecosystems'' sysID ''name'' [DString newName] w of
              ((qcost, err), w1) \<Rightarrow> (err, w1)))"

subsection \<open>RollbackContract\<close>

text \<open>
  \<open>RollbackContract\<close>, lines 609-624. The type assertion on \<open>c.Block.Info\<close>
  panics when the contract carries no \<open>ContractInfo\<close>; \<open>delete\<close> removes the
  entries of the contract's name from \<open>Objects\<close>.
\<close>

definition RollbackContract ::
  "env \<Rightarrow> SmartContract \<Rightarrow> string \<Rightarrow> world \<Rightarrow> error option outcome \<times> SmartContract \<times> world" where
  "RollbackContract E sc name w =
     (if \<not> accessContracts sc [nNewContract, nImport]
      then (Return (Some errAccessRollbackContract), sc,
            log_Error IncorrectCallingContract ''Check contract access'' w)
      else (case VMGetContract E (VM sc) name (ucast (TxSmart_EcosystemID sc)) of
              None \<Rightarrow> (Return None, sc, w)
            | Some c \<Rightarrow>
                (case Contract_Info_ID c of
                   None \<Rightarrow> (Panics, sc, w)
                 | Some cid \<Rightarrow>
                     (let vm1 = (if unat cid < length (Children (VM sc))
                                 then (VM sc)\<lparr>Children := take (unat cid) (Children (VM sc))\<rparr>
                                 else VM sc);
                          vm2 = vm1\<lparr>Objects := filter (\<lambda>(k, obj). k \<noteq> Contract_Name c)
                                                   (Objects vm1)\<rparr>
                      in (Return None, sc\<lparr>VM := vm2\<rparr>, w)))))"

subsection \<open>CreateEcosystem\<close>

text \<open>
  Lines 478-480: the public key of the wallet, read from the first row of the query
  when \<open>Len\<close> says there is one. An index out of range and a failed type assertion
  panic.
\<close>

definition firstPub :: "env \<Rightarrow> dyn list \<Rightarrow> string outcome" where
  "firstPub E ret =
     (if 0 <s Len E ret
      then (case ret of
              [] \<Rightarrow> Panics
            | row # rest \<Rightarrow>
                (case row of
                   DMap m \<Rightarrow> (case map_of m ''pub'' of Some (DString p) \<Rightarrow> Return p | _ \<Rightarrow> Panics)
                 | _ \<Rightarrow> Panics))
      else Return [])"

text \<open>
  Lines 455-499: the tables of the new ecosystem. \<open>sc\<close> is the context on entry;
  the function works on it with \<open>Rollback\<close> off and \<open>FullAccess\<close> on, and switches
  both back before the last insert.
\<close>

definition createEcosystemTables ::
  "env \<Rightarrow> SmartContract \<Rightarrow> int64 \<Rightarrow> string \<Rightarrow> int64 \<Rightarrow> string \<Rightarrow> world \<Rightarrow>
     (error + int64) outcome \<times> SmartContract \<times> world" where
  "createEcosystemTables E sc wallet name eid idStr w =
     (let sc1 = sc\<lparr>Rollback := False, FullAccess := True\<rparr> in
      case DBInsert E sc1 (''@'' @ idStr @ ''_pages'') ''id,name,value,menu,conditions''
             [DString ''1'', DString ''default_page'',
              DString (SysParamString E (calls w) ''default_ecosystem_page''),
              DString ''default_menu'',
              DString (''ContractConditions('' @ dq ''MainCondition'' @ '')'')] w of
        ((qcost, lid, Some err), w1) \<Rightarrow>
          (Return (Inl err), sc1, log_Error DBError ''inserting default page'' w1)
      | ((qcost, lid, None), w1) \<Rightarrow>
      (case DBInsert E sc1 (''@'' @ idStr @ ''_menu'') ''id,name,value,title,conditions''
              [DString ''1'', DString ''default_menu'',
               DString (SysParamString E (calls w1) ''default_ecosystem_menu''),
               DString ''default'',
               DString (''ContractConditions('' @ dq ''MainCondition'' @ '')'')] w1 of
         ((qcost, lid, Some err), w2) \<Rightarrow>
           (Return (Inl err), sc1, log_Error DBError ''inserting default page'' w2)
       | ((qcost, lid, None), w2) \<Rightarrow>
       (case DBSelect E (calls w2) sc1 ''@1_keys'' ''pub'' wallet ''id'' 0 1 0 [] [] of
          Inl err \<Rightarrow> (Return (Inl err), sc1, log_Error DBError ''getting pub key'' w2)
        | Inr ret \<Rightarrow>
        (case firstPub E ret of
           Panics \<Rightarrow> (Panics, sc1, w2)
         | Return pub \<Rightarrow>
         (case DBInsert E sc1 (''@'' @ idStr @ ''_keys'') ''id,pub''
                 [DInt64 wallet, DString pub] w2 of
            ((qcost, lid, Some err), w3) \<Rightarrow>
              (Return (Inl err), sc1, log_Error DBError ''inserting default page'' w3)
          | ((qcost, lid, None), w3) \<Rightarrow>
          (let sc2 = sc1\<lparr>FullAccess := False, Rollback := True\<rparr> in
           case DBInsert E sc2 ''@1_ecosystems'' ''id,name'' [DInt64 eid, DString name] w3 of
             ((qcost, lid, Some err), w4) \<Rightarrow>
               (Return (Inl err), sc2,
                log_Error DBError ''insert new ecosystem to stat table'' w4)
           | ((qcost, lid, None), w4) \<Rightarrow>
               if \<not> VDE sc2
               then (case SysRollback E (''{'' @ dq ''Type'' @ '': '' @ dq ''NewEcosystem'' @ ''}'') w4 of
                       (Some err, w5) \<Rightarrow> (Return (Inl err), sc2, w5)
                     | (None, w5) \<Rightarrow> (Return (Inr eid), sc2, w5))
               else (Return (Inr eid), sc2, w4)))))))"

text \<open>\<open>CreateEcosystem\<close>, lines 420-500.\<close>

definition CreateEcosystem ::
  "env \<Rightarrow> SmartContract \<Rightarrow> int64 \<Rightarrow> string \<Rightarrow> world \<Rightarrow>
     (error + int64) outcome \<times> SmartContract \<times> world" where
  "CreateEcosystem E sc wallet name w =
     (if TxContract_Name sc \<noteq> ''@1NewEcosystem''
      then (Return (Inl (Errorf ''CreateEcosystem can be only called from @1NewEcosystem'')), sc,
            log_Error IncorrectCallingContract
              ''CreateEcosystem can be only called from @1NewEcosystem'' w)
      else (case StateParameter_Get E (calls w) ''1'' ''founder_account'' of
              Inl err \<Rightarrow> (Return (Inl err), sc, log_Error DBError ''getting founder'' w)
            | Inr (found, founder) \<Rightarrow>
                if \<not> found \<or> length founder = 0
                then (Return (Inl ErrFounderAccount), sc, log_Error NotFound ''founder not found'' w)
                else (case GetNextID E (calls w) ''1_ecosystems'' of
                        Inl err \<Rightarrow>
                          (Return (Inl err), sc,
                           log_Error DBError ''generating next ecosystem id'' w)
                      | Inr eid \<Rightarrow>
                          (let w1 = host (Call_ExecSchemaEcosystem eid wallet name
                                            (StrToInt64 E founder)) w in
                           case ret_ExecSchemaEcosystem E (calls w1) of
                             Some err \<Rightarrow>
                               (Return (Inl err), sc,
                                log_Error DBError ''executing ecosystem schema'' w1)
                           | None \<Rightarrow>
                               (let idStr = Int64ToStr E eid;
                                    w2 = host (Call_LoadContract idStr) w1 in
                                case ret_LoadContract E (calls w2) of
                                  Some err \<Rightarrow> (Return (Inl err), sc, w2)
                                | None \<Rightarrow> createEcosystemTables E sc wallet name eid idStr w2)))))"

subsection \<open>CheckSignature\<close>

text \<open>
  The loop of lines 589-595: the value of each parameter of the sign-spec is appended
  to \<open>forsign\<close> after a comma, a missing or nil value as the empty string.
\<close>

fun forsignParams :: "env \<Rightarrow> (string \<rightharpoonup> dyn) \<Rightarrow> SignRes list \<Rightarrow> string \<Rightarrow> string" where
  "forsignParams E i [] forsign = forsign"
| "forsignParams E i (isign # params) forsign =
     forsignParams E i params
       (forsign @ '','' @
          fmt_dyn E (case i (SignRes_Param isign) of
                       None \<Rightarrow> DString [] | Some DNil \<Rightarrow> DString [] | Some v \<Rightarrow> v))"

text \<open>
  Lines 575-605: the signature is decoded and checked. The three unchecked type
  assertions panic when the entry is missing or of another type.
\<close>

definition checkSignatureVerify ::
  "env \<Rightarrow> (string \<rightharpoonup> dyn) \<Rightarrow> SmartContract \<Rightarrow> string \<Rightarrow> world \<Rightarrow>
     error option outcome \<times> world" where
  "checkSignatureVerify E i sc signs w =
     (case i ''Signature'' of
        Some (DString sigtext) \<Rightarrow>
          (case hex_DecodeString sigtext of
             (hexsign, err) \<Rightarrow>
               if length hexsign = 0 \<or> err \<noteq> None
               then (Return (Some (Errorf ''wrong signature'')),
                     log_Error ConversionError ''comverting signature to hex'' w)
               else (case Unmarshal_TxSignJSON E signs of
                       Inl err \<Rightarrow>
                         (Return (Some err), log_Error JSONUnmarshallError ''unmarshalling sign'' w)
                     | Inr sign \<Rightarrow>
                         (case i ''key_id'' of
                            Some (DInt64 wallet) \<Rightarrow>
                              (case i ''time'' of
                                 Some (DInt64 t) \<Rightarrow>
                                   (let forsign = forsignParams E i (sign_Params sign)
                                          (Sprintf ''%d,%d'' [ArgUint64 t, ArgUint64 wallet]) in
                                    case CheckSign E (PublicKeys sc) forsign hexsign True of
                                      Inl err \<Rightarrow> (Return (Some err), w)
                                    | Inr ok \<Rightarrow>
                                        if \<not> ok
                                        then (Return (Some (Errorf
                                                (Sprintf (''incorrect signature '' @ forsign) []))),
                                              log_Error InvalidObject ''incorrect signature'' w)
                                        else (Return None, w))
                               | _ \<Rightarrow> (Panics, w))
                          | _ \<Rightarrow> (Panics, w))))
      | _ \<Rightarrow> (Panics, w))"

text \<open>
  \<open>CheckSignature\<close>, lines 563-606. \<open>i\<close> is the map of the VM's variables;
  \<open>Return None\<close> is the result \<open>nil\<close>.
\<close>

definition CheckSignature ::
  "env \<Rightarrow> (string \<rightharpoonup> dyn) \<Rightarrow> string \<Rightarrow> world \<Rightarrow> error option outcome \<times> world" where
  "CheckSignature E i name0 w =
     (case ParseContract E name0 of
        (state, name) \<Rightarrow>
          (let pref = Int64ToStr E (ucast state) in
           case i ''sc'' of
             Some (DSmartContract sc) \<Rightarrow>
               (case Single_String E (calls w)
                       (''select value from '' @ dq (pref @ ''_signatures'') @ '' where name=?'')
                       name of
                  Inl err \<Rightarrow> (Return (Some err), log_Error DBError ''executing single query'' w)
                | Inr signs \<Rightarrow>
                    if length signs = 0 then (Return None, w)
                    else checkSignatureVerify E i sc signs w)
           | _ \<Rightarrow> (Panics, w)))"

section \<open>Properties as the specification words them\<close>

text \<open>
  The caller may update the parameter: its row is found, and its conditions are empty
  or evaluate to true.
\<close>

definition may_update :: "env \<Rightarrow> SmartContract \<Rightarrow> string \<Rightarrow> world \<Rightarrow> bool" where
  "may_update E sc name w =
     (case SystemParameter_Get E (calls w) name of
        Inr (Some par) \<Rightarrow>
          par_Conditions par = [] \<or> EvalIf E (calls w) sc (par_Conditions par) = Inr True
      | _ \<Rightarrow> False)"

text \<open>
  A pair \<open>[ecosystem_id, rate]\<close> with a strictly positive first element, as the
  specification words it.
\<close>

definition positive_id_pair :: "env \<Rightarrow> string list \<Rightarrow> bool" where
  "positive_id_pair E item = (length item = 2 \<and> 0 < sint (StrToInt64 E (item ! 0)))"

text \<open>
  The pair that the code accepts: the rate of \<open>fuel_rate\<close> is strictly positive as
  well, the rate of \<open>commission_wallet\<close> is not zero.
\<close>

definition rate_pair :: "env \<Rightarrow> string \<Rightarrow> string list \<Rightarrow> bool" where
  "rate_pair E name item =
     (positive_id_pair E item \<and>
      (if name = ''fuel_rate'' then 0 < sint (StrToInt64 E (item ! 1))
       else StrToInt64 E (item ! 1) \<noteq> 0))"

text \<open>The value is a JSON array of string lists, each of which satisfies \<open>P\<close>.\<close>

definition json_array_of :: "env \<Rightarrow> (string list \<Rightarrow> bool) \<Rightarrow> string \<Rightarrow> bool" where
  "json_array_of E P val =
     (case Unmarshal_list E val of Inl err \<Rightarrow> False | Inr list \<Rightarrow> list_all P list)"

text \<open>
  A host call asks for an entry of the rollback journal: \<open>selectiveLoggingAndUpd\<close>
  with \<open>logRollback\<close> set, and \<open>SysRollback\<close>.
\<close>

fun requests_journal :: "host_call \<Rightarrow> bool" where
  "requests_journal (Call_selectiveLoggingAndUpd flds vals table whereFields whereValues logRollback mustExist) =
     logRollback"
| "requests_journal (Call_SysRollback d) = True"
| "requests_journal c = False"

fun is_SysRollback :: "host_call \<Rightarrow> bool" where
  "is_SysRollback (Call_SysRollback d) = True"
| "is_SysRollback c = False"

text \<open>
  The \<open>logRollback\<close> argument of every call of \<open>selectiveLoggingAndUpd\<close> in the
  list is \<open>b\<close>.
\<close>

fun logRollback_is :: "bool \<Rightarrow> host_call \<Rightarrow> bool" where
  "logRollback_is b (Call_selectiveLoggingAndUpd flds vals table whereFields whereValues logRollback mustExist) =
     (logRollback = b)"
| "logRollback_is b c = True"

text \<open>
  The gate turned the caller away: no host call was made, and one entry of type
  \<open>IncorrectCallingContract\<close> with the message was logged.
\<close>

definition turned_away :: "string \<Rightarrow> world \<Rightarrow> world \<Rightarrow> bool" where
  "turned_away msg w w' =
     (calls w' = calls w \<and> logs w' = logs w @ [(IncorrectCallingContract, msg)])"

text \<open>A host call that writes the new value of a system parameter.\<close>

fun writes_value :: "string \<Rightarrow> host_call \<Rightarrow> bool" where
  "writes_value val (Call_selectiveLoggingAndUpd flds vals table whereFields whereValues logRollback mustExist) =
     (flds = [''value''] \<and> vals = [DString val] \<and> table = ''1_system_parameters'')"
| "writes_value val c = False"

text \<open>The result is an error; the call returned an ecosystem id.\<close>

definition is_error :: "error + 'a \<Rightarrow> bool" where
  "is_error r = (case r of Inl err \<Rightarrow> True | Inr x \<Rightarrow> False)"

definition succeeded :: "(error + int64) outcome \<Rightarrow> bool" where
  "succeeded r = (case r of Return (Inr n) \<Rightarrow> True | _ \<Rightarrow> False)"

text \<open>
  For the proofs about \<open>CreateEcosystem\<close>: a host call that is neither
  \<open>selectiveLoggingAndUpd\<close> nor \<open>SysRollback\<close>, and a record of host calls that grew
  by such calls only, and by calls of \<open>SysRollback\<close> when VDE is off.
\<close>

fun plain_call :: "host_call \<Rightarrow> bool" where
  "plain_call (Call_selectiveLoggingAndUpd flds vals table whereFields whereValues logRollback mustExist) =
     False"
| "plain_call (Call_SysRollback d) = False"
| "plain_call c = True"

definition grows :: "bool \<Rightarrow> world \<Rightarrow> world \<Rightarrow> bool" where
  "grows vde w w' =
     (\<exists>tr. calls w' = calls w @ tr \<and>
        list_all (\<lambda>c. plain_call c \<or> (is_SysRollback c \<and> \<not> vde)) tr)"

section \<open>An environment for the examples\<close>

definition demo_StrToInt64 :: "string \<Rightarrow> int64" where
  "demo_StrToInt64 s =
     (case map_of [(''0'', 0), (''1'', 1), (''5'', 5), (''100'', 100), (''86400'', 86400)] s of
        Some n \<Rightarrow> n
      | None \<Rightarrow> 0)"

text \<open>The values \<open>[["1","0"]]\<close> and \<open>[["1","5"]]\<close> decode; no other value does.\<close>

definition demo_Unmarshal_list :: "string \<Rightarrow> error + string list list" where
  "demo_Unmarshal_list s =
     (if s = ''[['' @ dq ''1'' @ '','' @ dq ''0'' @ '']]'' then Inr [[''1'', ''0'']]
      else if s = ''[['' @ dq ''1'' @ '','' @ dq ''5'' @ '']]'' then Inr [[''1'', ''5'']]
      else Inl (Errorf ''invalid character''))"

definition demo_par :: "string \<Rightarrow> SystemParameter" where
  "demo_par name =
     \<lparr>par_ID = 3, par_Name = name, par_Value = ''2'', par_Conditions = ''true''\<rparr>"

text \<open>
  Every parameter exists and its conditions hold, every table may be updated, and
  every host call succeeds.
\<close>

definition demo_env :: env where
  "demo_env =
     \<lparr>StrToInt64 = demo_StrToInt64,
      Int64ToStr = decimal,
      Error_string = (\<lambda>err. ''error''),
      VMGetContract = (\<lambda>vm name state. None),
      FullNodes = ''full_nodes'',
      SysString = (\<lambda>h key. []),
      CheckSign = (\<lambda>keys forsign sign nosize. Inr True),
      ParseContract = (\<lambda>name. (1, name)),
      Len = (\<lambda>xs. word_of_nat (length xs)),
      Sprint = (\<lambda>v. []),
      Unmarshal_list = demo_Unmarshal_list,
      Unmarshal_FullNodes = (\<lambda>s. Inr []),
      Unmarshal_TxSignJSON = (\<lambda>s. Inl (Errorf ''invalid character'')),
      SystemParameter_Get = (\<lambda>h name. Inr (Some (demo_par name))),
      StateParameter_Get = (\<lambda>h prefix name. Inr (True, ''1'')),
      GetNextID = (\<lambda>h table. Inr 5),
      Single_String = (\<lambda>h query name. Inr []),
      EvalIf = (\<lambda>h sc cond. Inr True),
      CompileEval = (\<lambda>h cond state. None),
      getDefTableName = (\<lambda>sc table. ''1_'' @ table),
      AccessTable = (\<lambda>h sc table action. None),
      AccessColumns = (\<lambda>h sc table columns update. Inr columns),
      DBSelect = (\<lambda>h sc table columns rid order off lim eco wh params. Inr []),
      ret_selectiveLoggingAndUpd = (\<lambda>h. (1, ''3'', None)),
      ret_SysUpdate = (\<lambda>h. None),
      ret_SysRollback = (\<lambda>h. None),
      ret_DBInsert = (\<lambda>h. (1, 1, None)),
      ret_DBUpdate = (\<lambda>h. (1, None)),
      ret_ExecSchemaEcosystem = (\<lambda>h. None),
      ret_LoadContract = (\<lambda>h. None)\<rparr>"

text \<open>The same, for a caller whom the conditions of the parameter turn away.\<close>

definition denying_env :: env where
  "denying_env = demo_env\<lparr>EvalIf := (\<lambda>h sc cond. Inr False)\<rparr>"

text \<open>The same, with tables that the caller may not update.\<close>

definition closed_tables_env :: env where
  "closed_tables_env = demo_env\<lparr>AccessTable := (\<lambda>h sc table action. Some errAccessDenied)\<rparr>"

text \<open>A call context of the contract \<open>@1TransferMoney\<close> in consensus mode.\<close>

definition demo_sc :: SmartContract where
  "demo_sc =
     \<lparr>VDE = False, Rollback = True, FullAccess = False, SysUpdate = False,
      TxContract_Name = ''@1TransferMoney'', TxSmart_EcosystemID = 1, PublicKeys = [],
      VM = \<lparr>Children = [], Objects = []\<rparr>\<rparr>"

definition empty_world :: world where
  "empty_world = \<lparr>calls = [], logs = []\<rparr>"

text \<open>
  The contexts of the examples: \<open>@1ActivateContract\<close> in consensus mode with the
  rollback flag off, \<open>@1ActivateContract\<close> in VDE mode, and \<open>@1NewEcosystem\<close>.
\<close>

definition activating_sc :: SmartContract where
  "activating_sc = demo_sc\<lparr>Rollback := False, TxContract_Name := ''@1ActivateContract''\<rparr>"

definition vde_sc :: SmartContract where
  "vde_sc = demo_sc\<lparr>VDE := True, TxContract_Name := ''@1ActivateContract''\<rparr>"

definition new_ecosystem_sc :: SmartContract where
  "new_ecosystem_sc = demo_sc\<lparr>TxContract_Name := ''@1NewEcosystem''\<rparr>"

text \<open>An address function under which the key \<open>00ff\<close> has the address 0.\<close>

definition zero_Address :: "byte list \<Rightarrow> int64" where
  "zero_Address pubkey = (if pubkey = [0, 255] then 0 else 11)"

section \<open>The wire format\<close>

lemma Sprintf_s:
  "Sprintf (CHR ''%'' # CHR ''s'' # fs) (ArgString x # as) = x @ Sprintf fs as"
  by (simp add: printVerb_def)

lemma Sprintf_d_int:
  "Sprintf (CHR ''%'' # CHR ''d'' # fs) (ArgInt n # as) = decimal n @ Sprintf fs as"
  by (simp add: printVerb_def fmt_v_def decimal_def)

lemma Sprintf_d_int64:
  "Sprintf (CHR ''%'' # CHR ''d'' # fs) (ArgInt64 n # as) = decimal n @ Sprintf fs as"
  by (simp add: printVerb_def fmt_v_def decimal_def)

lemma Sprintf_comma:
  "Sprintf (CHR '','' # v # fs) as = CHR '','' # Sprintf (v # fs) as"
  by (cases as) simp_all

text \<open>
  C1. For every transaction envelope, \<open>ForSign\<close> is exactly RequestID, Type, Time,
  KeyID, EcosystemID, TokenEcosystem, MaxSum, PayOver and SignedBy, in that order,
  joined by commas: no other separator and no other field.
\<close>

theorem ForSign_is_comma_join: "ForSign s = join_commas (signable_fields s)"
proof -
  have "ForSign s =
      RequestID s @ '','' @ decimal (Type s) @ '','' @ decimal (Time s) @ '','' @
      decimal (KeyID s) @ '','' @ decimal (EcosystemID s) @ '','' @
      decimal (TokenEcosystem s) @ '','' @ MaxSum s @ '','' @ PayOver s @ '','' @
      decimal (SignedBy s)"
    unfolding ForSign_def
    by (simp only: Sprintf_s Sprintf_d_int Sprintf_d_int64 Sprintf_comma Sprintf.simps(1)
        extraArgs_def) simp
  then show ?thesis
    by (simp add: signable_fields_def)
qed

section \<open>The record of host calls and the log\<close>

lemma calls_log_Error [simp]: "calls (log_Error t msg w) = calls w"
  by (simp add: log_Error_def)

lemma logs_log_Error [simp]: "logs (log_Error t msg w) = logs w @ [(t, msg)]"
  by (simp add: log_Error_def)

lemma calls_host [simp]: "calls (host c w) = calls w @ [c]"
  by (simp add: host_def)

lemma logs_host [simp]: "logs (host c w) = logs w"
  by (simp add: host_def)

lemma issued_same [simp]: "calls w' = calls w \<Longrightarrow> issued w w' = []"
  by (simp add: issued_def)

section \<open>The gates of the admin functions\<close>

text \<open>
  C2. Every host function of \<open>smart_p.go\<close> with a whitelist of callers
  (\<open>CreateEcosystem\<close> only from \<open>@1NewEcosystem\<close>; \<open>CreateLanguage\<close> only from
  \<open>@1NewLang\<close>, \<open>@1NewLangJoint\<close>, \<open>@1Import\<close>; \<open>Activate\<close> and \<open>Deactivate\<close> only
  from \<open>@1ActivateContract\<close> or \<open>@1DeactivateContract\<close>; and also \<open>EditLanguage\<close>,
  \<open>EditEcosysName\<close> and \<open>RollbackContract\<close>), called while the contract of the
  transaction is not in the whitelist, returns its error, logs it with the type
  \<open>IncorrectCallingContract\<close> and changes nothing: the call context is as before and
  no host call is made.
\<close>

theorem admin_gate:
  "(TxContract_Name sc \<noteq> ''@1NewEcosystem'' \<longrightarrow>
      (case CreateEcosystem E sc wallet name w of
         (r, sc', w') \<Rightarrow>
           r = Return (Inl (Errorf ''CreateEcosystem can be only called from @1NewEcosystem'')) \<and>
           sc' = sc \<and>
           turned_away ''CreateEcosystem can be only called from @1NewEcosystem'' w w')) \<and>
   (TxContract_Name sc \<notin> {''@1NewLang'', ''@1NewLangJoint'', ''@1Import''} \<longrightarrow>
      (case CreateLanguage E sc name transl appID w of
         (r, w') \<Rightarrow>
           r = Inl (Errorf
                 ''CreateLanguage can be only called from @1NewLang, @1NewLangJoint, @1Import'') \<and>
           turned_away
             ''CreateLanguage can be only called from @1NewLang, @1NewLangJoint, @1Import'' w w')) \<and>
   (TxContract_Name sc \<notin> {''@1ActivateContract'', ''@1DeactivateContract''} \<longrightarrow>
      (case Activate E sc tblid state w of
         (r, w') \<Rightarrow>
           r = Some (Errorf
                 ''ActivateContract can be only called from @1ActivateContract or @1DeactivateContract'') \<and>
           turned_away
             ''ActivateContract can be only called from @1ActivateContract or @1DeactivateContract''
             w w') \<and>
      (case Deactivate E sc tblid state w of
         (r, w') \<Rightarrow>
           r = Some (Errorf
                 ''DeactivateContract can be only called from @1ActivateContract or @1DeactivateContract'') \<and>
           turned_away
             ''DeactivateContract can be only called from @1ActivateContract or @1DeactivateContract''
             w w')) \<and>
   (TxContract_Name sc \<notin> {''@1EditLang'', ''@1EditLangJoint'', ''@1Import''} \<longrightarrow>
      (case EditLanguage E sc lid name transl appID w of
         (r, w') \<Rightarrow>
           r = Some (Errorf
                 ''EditLanguage can be only called from @1EditLang, @1EditLangJoint and @1Import'') \<and>
           turned_away
             ''EditLanguage can be only called from @1EditLang, @1EditLangJoint and @1Import'' w w')) \<and>
   (TxContract_Name sc \<noteq> ''@1EditEcosystemName'' \<longrightarrow>
      (case EditEcosysName E sc sysID newName w of
         (r, w') \<Rightarrow>
           r = Some (Errorf ''EditEcosystemName can be only called from @1EditEcosystemName'') \<and>
           turned_away ''EditEcosystemName can be only called from @1EditEcosystemName'' w w')) \<and>
   (TxContract_Name sc \<notin> {''@1NewContract'', ''@1Import''} \<longrightarrow>
      (case RollbackContract E sc name w of
         (r, sc', w') \<Rightarrow>
           r = Return (Some errAccessRollbackContract) \<and> sc' = sc \<and>
           turned_away ''Check contract access'' w w'))"
  by (simp add: CreateEcosystem_def CreateLanguage_def Activate_def Deactivate_def
      EditLanguage_def EditEcosysName_def RollbackContract_def accessContracts_def
      nActivateContract_def nDeactivateContract_def nNewContract_def nImport_def
      turned_away_def)

text \<open>
  The scenario S6 of the specification: \<open>CreateEcosystem\<close> called from
  \<open>@1TransferMoney\<close>; and \<open>Activate\<close> from the same contract.
\<close>

theorem admin_gate_witness:
  "fst (CreateEcosystem demo_env demo_sc 9 ''eco'' empty_world) =
     Return (Inl (Errorf ''CreateEcosystem can be only called from @1NewEcosystem'')) \<and>
   fst (snd (CreateEcosystem demo_env demo_sc 9 ''eco'' empty_world)) = demo_sc \<and>
   calls (snd (snd (CreateEcosystem demo_env demo_sc 9 ''eco'' empty_world))) = [] \<and>
   logs (snd (snd (CreateEcosystem demo_env demo_sc 9 ''eco'' empty_world))) =
     [(IncorrectCallingContract, ''CreateEcosystem can be only called from @1NewEcosystem'')] \<and>
   fst (CreateLanguage demo_env demo_sc ''eco'' ''{}'' 1 empty_world) =
     Inl (Errorf ''CreateLanguage can be only called from @1NewLang, @1NewLangJoint, @1Import'') \<and>
   calls (snd (CreateLanguage demo_env demo_sc ''eco'' ''{}'' 1 empty_world)) = [] \<and>
   fst (Activate demo_env demo_sc 7 1 empty_world) =
     Some (Errorf
       ''ActivateContract can be only called from @1ActivateContract or @1DeactivateContract'') \<and>
   calls (snd (Activate demo_env demo_sc 7 1 empty_world)) = [] \<and>
   fst (Deactivate demo_env demo_sc 7 1 empty_world) =
     Some (Errorf
       ''DeactivateContract can be only called from @1ActivateContract or @1DeactivateContract'') \<and>
   calls (snd (Deactivate demo_env demo_sc 7 1 empty_world)) = [] \<and>
   fst (EditLanguage demo_env demo_sc 2 ''eco'' ''{}'' 1 empty_world) =
     Some (Errorf
       ''EditLanguage can be only called from @1EditLang, @1EditLangJoint and @1Import'') \<and>
   fst (EditEcosysName demo_env demo_sc 3 ''new'' empty_world) =
     Some (Errorf ''EditEcosystemName can be only called from @1EditEcosystemName'') \<and>
   fst (RollbackContract demo_env demo_sc ''eco'' empty_world) =
     Return (Some errAccessRollbackContract) \<and>
   fst (snd (RollbackContract demo_env demo_sc ''eco'' empty_world)) = demo_sc"
proof -
  have caller: "TxContract_Name demo_sc = ''@1TransferMoney''"
    by (simp add: demo_sc_def)
  show ?thesis
    using admin_gate [where sc = demo_sc and E = demo_env and w = empty_world and wallet = 9
        and name = "''eco''" and tblid = 7 and state = 1 and transl = "''{}''" and appID = 1
        and lid = 2 and sysID = 3 and newName = "''new''"]
    by (simp add: caller turned_away_def empty_world_def case_prod_beta)
qed

section \<open>UpdateSysParam: the domain of the values\<close>

lemma sysParamAccess_calls: "calls (snd (sysParamAccess E sc name w)) = calls w"
  by (simp add: sysParamAccess_def Let_def split: sum.split option.split)

lemma sysParamAccess_ok:
  "may_update E sc name w \<Longrightarrow> \<exists>par. sysParamAccess E sc name w = (Inr par, w)"
  by (auto simp: may_update_def sysParamAccess_def Let_def split: sum.splits option.splits)

lemma sysParamAccess_Inr: "sysParamAccess E sc name w = (Inr par, w1) \<Longrightarrow> w1 = w"
  by (auto simp: sysParamAccess_def Let_def split: sum.splits option.splits if_splits)

lemma sysParamValue_calls: "calls (snd (sysParamValue E name val w)) = calls w"
  by (simp add: sysParamValue_def split: sum.split prod.split)

lemma sysParamValue_Inr_world:
  "fst (sysParamValue E name val w) = Inr x \<Longrightarrow> snd (sysParamValue E name val w) = w"
  by (cases "checkValue E name val") (auto simp: sysParamValue_def split: if_splits)

text \<open>A value that the check turns down is never written.\<close>

lemma UpdateSysParam_value_error:
  assumes "is_error (fst (sysParamValue E name val w))"
  shows "case UpdateSysParam E sc name val conditions w of
           (r, sc', w') \<Rightarrow> is_error r \<and> sc' = sc \<and> calls w' = calls w"
proof (cases "sysParamAccess E sc name w")
  case (Pair a w1)
  note acc = this
  show ?thesis
  proof (cases a)
    case (Inl err)
    then show ?thesis
      using acc sysParamAccess_calls [of E sc name w]
      by (simp add: UpdateSysParam_def is_error_def)
  next
    case (Inr par)
    then have w1: "w1 = w" using acc sysParamAccess_Inr by blast
    obtain v w2 where val: "sysParamValue E name val w = (v, w2)"
      by (cases "sysParamValue E name val w")
    then have "is_error v" and "calls w2 = calls w"
      using assms sysParamValue_calls [of E name val w] by simp_all
    then obtain err where "v = Inl err"
      by (cases v) (simp_all add: is_error_def)
    then show ?thesis
      using acc Inr w1 val \<open>calls w2 = calls w\<close>
      by (simp add: UpdateSysParam_def is_error_def)
  qed
qed

lemma gap_invalid:
  assumes "val \<noteq> []"
    and "\<not> (0 < sint (StrToInt64 E val) \<and> sint (StrToInt64 E val) < 86400)"
  shows "sysParamValue E ''gap_between_blocks'' val w =
           (Inl ErrInvalidValue, log_Error InvalidObject (Error_string E ErrInvalidValue) w)"
  using assms by (auto simp: sysParamValue_def checkValue_def Let_def)

text \<open>
  C3, as amended. For every call
  \<open>UpdateSysParam(sc, "gap_between_blocks", value, conditions)\<close> where \<open>value\<close> is not
  empty and its integer reading is not strictly between 0 and 86400, the call returns
  an error, leaves the call context as it was and makes no host call, so that the
  stored value is unchanged; the error is \<open>ErrInvalidValue\<close> whenever the
  parameter's row is found and its conditions are empty or evaluate to true. (Before
  the value is looked at, a failed lookup, a missing row, a failed evaluation of the
  conditions and a denied access each return their own error.)
\<close>

theorem gap_between_blocks_out_of_range:
  assumes "val \<noteq> []"
    and "\<not> (0 < sint (StrToInt64 E val) \<and> sint (StrToInt64 E val) < 86400)"
  shows "case UpdateSysParam E sc ''gap_between_blocks'' val conditions w of
           (r, sc', w') \<Rightarrow>
             is_error r \<and> sc' = sc \<and> calls w' = calls w \<and>
             (may_update E sc ''gap_between_blocks'' w \<longrightarrow> r = Inl ErrInvalidValue)"
proof -
  have inv: "sysParamValue E ''gap_between_blocks'' val w =
      (Inl ErrInvalidValue, log_Error InvalidObject (Error_string E ErrInvalidValue) w)"
    by (rule gap_invalid [OF assms])
  then have "is_error (fst (sysParamValue E ''gap_between_blocks'' val w))"
    by (simp add: is_error_def)
  then have quiet: "case UpdateSysParam E sc ''gap_between_blocks'' val conditions w of
      (r, sc', w') \<Rightarrow> is_error r \<and> sc' = sc \<and> calls w' = calls w"
    by (rule UpdateSysParam_value_error)
  have "fst (UpdateSysParam E sc ''gap_between_blocks'' val conditions w) = Inl ErrInvalidValue"
    if m: "may_update E sc ''gap_between_blocks'' w"
  proof -
    obtain par where "sysParamAccess E sc ''gap_between_blocks'' w = (Inr par, w)"
      using sysParamAccess_ok [OF m] by blast
    then show ?thesis
      using inv by (simp add: UpdateSysParam_def)
  qed
  then show ?thesis
    using quiet by (auto simp: case_prod_beta)
qed

text \<open>The scenario S5 of the specification: the value \<open>0\<close>.\<close>

theorem gap_between_blocks_out_of_range_witness:
  "fst (UpdateSysParam demo_env demo_sc ''gap_between_blocks'' ''0'' [] empty_world) =
     Inl ErrInvalidValue \<and>
   fst (snd (UpdateSysParam demo_env demo_sc ''gap_between_blocks'' ''0'' [] empty_world)) =
     demo_sc \<and>
   calls (snd (snd (UpdateSysParam demo_env demo_sc ''gap_between_blocks'' ''0'' [] empty_world))) =
     []"
proof -
  have v: "''0'' \<noteq> []" and r: "sint (StrToInt64 demo_env ''0'') = 0"
    and m: "may_update demo_env demo_sc ''gap_between_blocks'' empty_world"
    by (simp_all add: demo_env_def demo_StrToInt64_def may_update_def)
  show ?thesis
    using gap_between_blocks_out_of_range [where E = demo_env and val = "''0''" and sc = demo_sc
        and conditions = "[]" and w = empty_world] v r m
    by (simp add: case_prod_beta empty_world_def)
qed

text \<open>
  C3 as the claim states it fails: the same call by a caller whom the conditions of
  the parameter turn away returns \<open>errAccessDenied\<close>, not \<open>ErrInvalidValue\<close>.
\<close>

theorem gap_between_blocks_out_of_range_counterexample:
  "''0'' \<noteq> [] \<and> sint (StrToInt64 denying_env ''0'') = 0 \<and>
   fst (UpdateSysParam denying_env demo_sc ''gap_between_blocks'' ''0'' [] empty_world) =
     Inl errAccessDenied \<and>
   fst (UpdateSysParam denying_env demo_sc ''gap_between_blocks'' ''0'' [] empty_world) \<noteq>
     Inl ErrInvalidValue"
  by (simp add: UpdateSysParam_def sysParamAccess_def denying_env_def demo_env_def demo_par_def
      demo_StrToInt64_def)

subsection \<open>fuel\_rate and commission\_wallet\<close>

lemma checkItems_fuel_rate:
  "checkItems E ''fuel_rate'' list = list_all (rate_pair E ''fuel_rate'') list"
  by (induction list) (auto simp: rate_pair_def positive_id_pair_def)

lemma checkItems_commission_wallet:
  "checkItems E ''commission_wallet'' list = list_all (rate_pair E ''commission_wallet'') list"
  by (induction list) (auto simp: rate_pair_def positive_id_pair_def)

lemma checkValue_fuel_rate:
  "checkValue E ''fuel_rate'' val =
     (case Unmarshal_list E val of
        Inl err \<Rightarrow> Inl err
      | Inr list \<Rightarrow> Inr (False, list_all (rate_pair E ''fuel_rate'') list))"
  by (simp add: checkValue_def checkItems_fuel_rate split: sum.split)

lemma checkValue_commission_wallet:
  "checkValue E ''commission_wallet'' val =
     (case Unmarshal_list E val of
        Inl err \<Rightarrow> Inl err
      | Inr list \<Rightarrow> Inr (False, list_all (rate_pair E ''commission_wallet'') list))"
  by (simp add: checkValue_def checkItems_commission_wallet split: sum.split)

lemma rate_value_checked:
  assumes "name = ''fuel_rate'' \<or> name = ''commission_wallet''"
  shows "checkValue E name val =
     (case Unmarshal_list E val of
        Inl err \<Rightarrow> Inl err
      | Inr list \<Rightarrow> Inr (False, list_all (rate_pair E name) list))"
  using assms checkValue_fuel_rate checkValue_commission_wallet by blast

lemma rate_value_accepted:
  assumes "name = ''fuel_rate'' \<or> name = ''commission_wallet''" and "val \<noteq> []"
  shows "(fst (sysParamValue E name val w) = Inr ([''value''], [DString val])) =
           json_array_of E (rate_pair E name) val"
  using assms(2)
  by (cases "Unmarshal_list E val")
    (simp_all add: sysParamValue_def rate_value_checked [OF assms(1)] json_array_of_def)

lemma rate_value_rejected:
  assumes "name = ''fuel_rate'' \<or> name = ''commission_wallet''" and "val \<noteq> []"
    and "\<not> json_array_of E (rate_pair E name) val"
  shows "is_error (fst (sysParamValue E name val w))"
  using assms(2,3)
  by (cases "Unmarshal_list E val")
    (simp_all add: sysParamValue_def rate_value_checked [OF assms(1)] json_array_of_def
      is_error_def)

text \<open>The host calls of the last part of \<open>UpdateSysParam\<close>.\<close>

lemma sysParamWrite_calls:
  assumes "flds \<noteq> []"
  shows "issued w (snd (snd (sysParamWrite E sc par flds vals w))) \<in>
           {[Call_selectiveLoggingAndUpd flds vals ''1_system_parameters'' [''id'']
               [Int64ToStr E (par_ID par)] (\<not> VDE sc \<and> Rollback sc) False],
            [Call_selectiveLoggingAndUpd flds vals ''1_system_parameters'' [''id'']
               [Int64ToStr E (par_ID par)] (\<not> VDE sc \<and> Rollback sc) False, Call_SysUpdate]}"
proof -
  define c where "c = Call_selectiveLoggingAndUpd flds vals ''1_system_parameters'' [''id'']
               [Int64ToStr E (par_ID par)] (\<not> VDE sc \<and> Rollback sc) False"
  obtain q r e where ret: "ret_selectiveLoggingAndUpd E (calls w @ [c]) = (q, r, e)"
    by (cases "ret_selectiveLoggingAndUpd E (calls w @ [c])") auto
  show ?thesis
  proof (cases e)
    case None
    then show ?thesis
      using assms ret
      by (cases "ret_SysUpdate E (calls w @ [c, Call_SysUpdate])")
        (simp_all add: sysParamWrite_def selectiveLoggingAndUpd_def issued_def Let_def c_def)
  next
    case (Some err)
    then show ?thesis
      using assms ret
      by (simp add: sysParamWrite_def selectiveLoggingAndUpd_def issued_def Let_def c_def)
  qed
qed

lemma UpdateSysParam_value_written:
  assumes "may_update E sc name w"
    and "fst (sysParamValue E name val w) = Inr ([''value''], [DString val])"
    and "conditions = []"
  shows "list_ex (writes_value val)
           (issued w (snd (snd (UpdateSysParam E sc name val conditions w))))"
proof -
  obtain par where acc: "sysParamAccess E sc name w = (Inr par, w)"
    using sysParamAccess_ok [OF assms(1)] by blast
  have v: "sysParamValue E name val w = (Inr ([''value''], [DString val]), w)"
    using assms(2) sysParamValue_Inr_world [of E name val w]
    by (cases "sysParamValue E name val w") simp
  have "UpdateSysParam E sc name val conditions w =
          sysParamWrite E sc par [''value''] [DString val] w"
    using acc v assms(3) by (simp add: UpdateSysParam_def sysParamConditions_def)
  moreover have "list_ex (writes_value val)
      (issued w (snd (snd (sysParamWrite E sc par [''value''] [DString val] w))))"
    using sysParamWrite_calls [of "[''value'']" w E sc par "[DString val]"] by auto
  ultimately show ?thesis by simp
qed

text \<open>
  C4, as amended. For every call \<open>UpdateSysParam(sc, name, value, conditions)\<close> with
  \<open>name\<close> equal to \<open>fuel_rate\<close> or \<open>commission_wallet\<close> and a non-empty value, the
  value passes the check exactly when it is a JSON array of pairs
  \<open>[ecosystem_id, rate]\<close> of strings whose first element is strictly positive and
  whose rate is strictly positive for \<open>fuel_rate\<close> and not zero for
  \<open>commission_wallet\<close>. Any other value makes the call return an error with no host
  call made; a value that passes is written when the caller may update the parameter
  and gives no new conditions.
\<close>

theorem rate_list_accepted:
  assumes "name = ''fuel_rate'' \<or> name = ''commission_wallet''" and "val \<noteq> []"
  shows "(fst (sysParamValue E name val w) = Inr ([''value''], [DString val])) =
           json_array_of E (rate_pair E name) val \<and>
         (case UpdateSysParam E sc name val conditions w of
            (r, sc', w') \<Rightarrow>
              if json_array_of E (rate_pair E name) val
              then may_update E sc name w \<and> conditions = [] \<longrightarrow>
                     list_ex (writes_value val) (issued w w')
              else is_error r \<and> sc' = sc \<and> calls w' = calls w)"
proof -
  note acc = rate_value_accepted [OF assms, of E w]
  obtain r sc' w' where u: "UpdateSysParam E sc name val conditions w = (r, sc', w')"
    by (cases "UpdateSysParam E sc name val conditions w") auto
  show ?thesis
  proof (cases "json_array_of E (rate_pair E name) val")
    case True
    have "list_ex (writes_value val) (issued w w')"
      if "may_update E sc name w" and "conditions = []"
      using UpdateSysParam_value_written [OF that(1) _ that(2), of val] acc True u by simp
    then show ?thesis using acc True u by simp
  next
    case False
    have "is_error r \<and> sc' = sc \<and> calls w' = calls w"
      using UpdateSysParam_value_error [OF rate_value_rejected [OF assms False, of w],
          of sc conditions] u
      by simp
    then show ?thesis using acc False u by simp
  qed
qed

text \<open>The value \<open>[["1","5"]]\<close> of \<open>fuel_rate\<close> passes and is written.\<close>

theorem rate_list_accepted_witness:
  "list_ex (writes_value (''[['' @ dq ''1'' @ '','' @ dq ''5'' @ '']]''))
     (issued empty_world (snd (snd (UpdateSysParam demo_env demo_sc ''fuel_rate''
        (''[['' @ dq ''1'' @ '','' @ dq ''5'' @ '']]'') [] empty_world))))"
proof -
  have ok: "json_array_of demo_env (rate_pair demo_env ''fuel_rate'')
      (''[['' @ dq ''1'' @ '','' @ dq ''5'' @ '']]'')"
    by (simp add: json_array_of_def positive_id_pair_def rate_pair_def demo_env_def
        demo_Unmarshal_list_def demo_StrToInt64_def dq_def)
  have m: "may_update demo_env demo_sc ''fuel_rate'' empty_world"
    by (simp add: may_update_def demo_env_def)
  show ?thesis
    using rate_list_accepted [of "''fuel_rate''" "''[['' @ dq ''1'' @ '','' @ dq ''5'' @ '']]''"
        demo_env empty_world demo_sc "[]"] ok m
    by (simp add: dq_def split: prod.splits)
qed

text \<open>
  C4 as the claim states it fails: \<open>[["1","0"]]\<close> is a JSON array of pairs with a
  strictly positive first element, and \<open>fuel_rate\<close> turns it down.
\<close>

theorem rate_list_accepted_counterexample:
  "json_array_of demo_env (positive_id_pair demo_env) (''[['' @ dq ''1'' @ '','' @ dq ''0'' @ '']]'') \<and>
   fst (UpdateSysParam demo_env demo_sc ''fuel_rate'' (''[['' @ dq ''1'' @ '','' @ dq ''0'' @ '']]'')
          [] empty_world) = Inl ErrInvalidValue"
  by (simp add: json_array_of_def positive_id_pair_def demo_env_def demo_Unmarshal_list_def
      demo_StrToInt64_def UpdateSysParam_def sysParamAccess_def sysParamValue_def checkValue_def
      dq_def demo_par_def)

section \<open>Requests for the rollback journal\<close>

lemma UpdateSysParam_issued:
  "issued w (snd (snd (UpdateSysParam E sc name val conditions w))) = [] \<or>
   (\<exists>par flds vals. flds \<noteq> [] \<and>
      UpdateSysParam E sc name val conditions w = sysParamWrite E sc par flds vals w)"
proof (cases "sysParamAccess E sc name w")
  case (Pair a w1)
  note acc = this
  show ?thesis
  proof (cases a)
    case (Inl err)
    then show ?thesis
      using acc sysParamAccess_calls [of E sc name w] by (simp add: UpdateSysParam_def)
  next
    case (Inr par)
    then have acc': "sysParamAccess E sc name w = (Inr par, w)"
      using acc sysParamAccess_Inr by blast
    obtain v w2 where val: "sysParamValue E name val w = (v, w2)"
      by (cases "sysParamValue E name val w")
    show ?thesis
    proof (cases v)
      case (Inl err)
      then show ?thesis
        using acc' val sysParamValue_calls [of E name val w] by (simp add: UpdateSysParam_def)
    next
      case (Inr fv)
      then have val': "sysParamValue E name val w = (Inr fv, w)"
        using val sysParamValue_Inr_world [of E name val w fv] by simp
      obtain flds vals where fv: "fv = (flds, vals)" by (cases fv)
      show ?thesis
      proof (cases "conditions \<noteq> [] \<and> CompileEval E (calls w) conditions 0 \<noteq> None")
        case True
        then show ?thesis
          using acc' val' fv by (auto simp: UpdateSysParam_def sysParamConditions_def)
      next
        case False
        then have u: "UpdateSysParam E sc name val conditions w =
            sysParamWrite E sc par (if conditions = [] then flds else flds @ [''conditions''])
              (if conditions = [] then vals else vals @ [DString conditions]) w"
          using acc' val' fv by (auto simp: UpdateSysParam_def sysParamConditions_def)
        show ?thesis
        proof (cases "(if conditions = [] then flds else flds @ [''conditions'']) = []")
          case True
          then show ?thesis using u by (simp add: sysParamWrite_def)
        next
          case False
          then show ?thesis using u by blast
        qed
      qed
    qed
  qed
qed

lemma UpdateSysParam_journal:
  "list_all (logRollback_is (\<not> VDE sc \<and> Rollback sc))
     (issued w (snd (snd (UpdateSysParam E sc name val conditions w)))) \<and>
   \<not> list_ex is_SysRollback (issued w (snd (snd (UpdateSysParam E sc name val conditions w))))"
proof -
  consider (none) "issued w (snd (snd (UpdateSysParam E sc name val conditions w))) = []"
    | (wr) par flds vals where "flds \<noteq> []"
        "UpdateSysParam E sc name val conditions w = sysParamWrite E sc par flds vals w"
    using UpdateSysParam_issued [of w E sc name val conditions] by blast
  then show ?thesis
  proof cases
    case none
    then show ?thesis by simp
  next
    case wr
    have "issued w (snd (snd (sysParamWrite E sc par flds vals w))) \<in>
           {[Call_selectiveLoggingAndUpd flds vals ''1_system_parameters'' [''id'']
               [Int64ToStr E (par_ID par)] (\<not> VDE sc \<and> Rollback sc) False],
            [Call_selectiveLoggingAndUpd flds vals ''1_system_parameters'' [''id'']
               [Int64ToStr E (par_ID par)] (\<not> VDE sc \<and> Rollback sc) False, Call_SysUpdate]}"
      by (rule sysParamWrite_calls [OF wr(1)])
    then have "issued w (snd (snd (sysParamWrite E sc par flds vals w))) =
           [Call_selectiveLoggingAndUpd flds vals ''1_system_parameters'' [''id'']
               [Int64ToStr E (par_ID par)] (\<not> VDE sc \<and> Rollback sc) False] \<or>
         issued w (snd (snd (sysParamWrite E sc par flds vals w))) =
            [Call_selectiveLoggingAndUpd flds vals ''1_system_parameters'' [''id'']
               [Int64ToStr E (par_ID par)] (\<not> VDE sc \<and> Rollback sc) False, Call_SysUpdate]"
      by simp
    then show ?thesis
      unfolding wr(2) by (elim disjE) simp_all
  qed
qed

lemma DBUpdateExt_journal:
  "list_all (logRollback_is (\<not> VDE sc \<and> Rollback sc))
     (issued w (snd (DBUpdateExt E sc tblname column v params val w))) \<and>
   \<not> list_ex is_SysRollback (issued w (snd (DBUpdateExt E sc tblname column v params val w)))"
  by (simp add: DBUpdateExt_def selectiveLoggingAndUpd_def issued_def Let_def
      split: option.split sum.split prod.split)

lemma Activate_journal:
  "list_ex is_SysRollback (issued w (snd (Activate E sc tblid state w))) =
     (accessContracts sc [nActivateContract, nDeactivateContract] \<and> \<not> VDE sc) \<and>
   list_all (logRollback_is False) (issued w (snd (Activate E sc tblid state w)))"
  by (simp add: Activate_def SysRollback_def issued_def Let_def)

lemma Deactivate_journal:
  "list_ex is_SysRollback (issued w (snd (Deactivate E sc tblid state w))) =
     (accessContracts sc [nActivateContract, nDeactivateContract] \<and> \<not> VDE sc) \<and>
   list_all (logRollback_is False) (issued w (snd (Deactivate E sc tblid state w)))"
  by (simp add: Deactivate_def SysRollback_def issued_def Let_def)

subsection \<open>CreateEcosystem, step by step\<close>

lemma grows_refl: "grows vde w w"
  by (simp add: grows_def)

lemma grows_log: "grows vde w w' \<Longrightarrow> grows vde w (log_Error t msg w')"
  by (simp add: grows_def)

lemma grows_host: "grows vde w w' \<Longrightarrow> plain_call c \<Longrightarrow> grows vde w (host c w')"
  by (auto simp: grows_def)

lemma grows_DBInsert:
  "grows vde w w1 \<Longrightarrow> DBInsert E sc t p v w1 = (r, w2) \<Longrightarrow> grows vde w w2"
  by (auto simp: DBInsert_def Let_def intro: grows_host)

lemma grows_SysRollback:
  "grows vde w w1 \<Longrightarrow> \<not> vde \<Longrightarrow> SysRollback E d w1 = (r, w2) \<Longrightarrow>
     grows vde w w2 \<and> list_ex is_SysRollback (issued w w2)"
  by (auto simp: SysRollback_def Let_def grows_def issued_def)

lemma grows_issued:
  "grows vde w w' \<Longrightarrow>
     list_all (\<lambda>c. plain_call c \<or> (is_SysRollback c \<and> \<not> vde)) (issued w w')"
  by (auto simp: grows_def issued_def)

lemma createEcosystemTables_grows:
  assumes g: "grows (VDE sc) w0 w"
  shows "case createEcosystemTables E sc wallet name eid idStr w of
           (r, sc', w') \<Rightarrow>
             grows (VDE sc) w0 w' \<and>
             (succeeded r \<and> \<not> VDE sc \<longrightarrow> list_ex is_SysRollback (issued w0 w'))"
proof -
  define sc1 where "sc1 = sc\<lparr>Rollback := False, FullAccess := True\<rparr>"
  define sc2 where "sc2 = sc1\<lparr>FullAccess := False, Rollback := True\<rparr>"
  have vde2: "VDE sc2 = VDE sc" by (simp add: sc1_def sc2_def)
  obtain q1 l1 e1 w1 where d1:
    "DBInsert E sc1 (''@'' @ idStr @ ''_pages'') ''id,name,value,menu,conditions''
       [DString ''1'', DString ''default_page'',
        DString (SysParamString E (calls w) ''default_ecosystem_page''),
        DString ''default_menu'',
        DString (''ContractConditions('' @ dq ''MainCondition'' @ '')'')] w = ((q1, l1, e1), w1)"
    by (metis prod_cases3 surj_pair)
  have g1: "grows (VDE sc) w0 w1" using grows_DBInsert [OF g d1] .
  show ?thesis
  proof (cases e1)
    case (Some err)
    then show ?thesis
      using d1 g1 unfolding createEcosystemTables_def sc1_def [symmetric] Let_def
      by (simp add: grows_log succeeded_def)
  next
    case None
    note n1 = this
    obtain q2 l2 e2 w2 where d2:
      "DBInsert E sc1 (''@'' @ idStr @ ''_menu'') ''id,name,value,title,conditions''
         [DString ''1'', DString ''default_menu'',
          DString (SysParamString E (calls w1) ''default_ecosystem_menu''),
          DString ''default'',
          DString (''ContractConditions('' @ dq ''MainCondition'' @ '')'')] w1 = ((q2, l2, e2), w2)"
      by (metis prod_cases3 surj_pair)
    have g2: "grows (VDE sc) w0 w2" using grows_DBInsert [OF g1 d2] .
    show ?thesis
    proof (cases e2)
      case (Some err)
      then show ?thesis
        using d1 n1 d2 g2
        unfolding createEcosystemTables_def sc1_def [symmetric] Let_def
        by (simp add: grows_log succeeded_def)
    next
      case None
      note n2 = this
      show ?thesis
      proof (cases "DBSelect E (calls w2) sc1 ''@1_keys'' ''pub'' wallet ''id'' 0 1 0 [] []")
        case (Inl err)
        then show ?thesis
          using d1 n1 d2 n2 g2
          unfolding createEcosystemTables_def sc1_def [symmetric] Let_def
          by (simp add: grows_log succeeded_def)
      next
        case (Inr ret)
        note sel = this
        show ?thesis
        proof (cases "firstPub E ret")
          case Panics
          then show ?thesis
            using d1 n1 d2 n2 g2 sel
            unfolding createEcosystemTables_def sc1_def [symmetric] Let_def
            by (simp add: succeeded_def)
        next
          case (Return pub)
          note fp = this
          obtain q3 l3 e3 w3 where d3:
            "DBInsert E sc1 (''@'' @ idStr @ ''_keys'') ''id,pub'' [DInt64 wallet, DString pub] w2 =
               ((q3, l3, e3), w3)"
            by (metis prod_cases3 surj_pair)
          have g3: "grows (VDE sc) w0 w3" using grows_DBInsert [OF g2 d3] .
          show ?thesis
          proof (cases e3)
            case (Some err)
            then show ?thesis
              using d1 n1 d2 n2 sel fp d3 g3
              unfolding createEcosystemTables_def sc1_def [symmetric] Let_def
              by (simp add: grows_log succeeded_def)
          next
            case None
            note n3 = this
            obtain q4 l4 e4 w4 where d4:
              "DBInsert E sc2 ''@1_ecosystems'' ''id,name'' [DInt64 eid, DString name] w3 =
                 ((q4, l4, e4), w4)"
              by (metis prod_cases3 surj_pair)
            have g4: "grows (VDE sc) w0 w4" using grows_DBInsert [OF g3 d4] .
            show ?thesis
            proof (cases e4)
              case (Some err)
              then show ?thesis
                using d1 n1 d2 n2 sel fp d3 n3 d4 g4
                unfolding createEcosystemTables_def sc1_def [symmetric] sc2_def [symmetric] Let_def
                by (simp add: grows_log succeeded_def)
            next
              case None
              note n4 = this
              show ?thesis
              proof (cases "VDE sc")
                case True
                then show ?thesis
                  using d1 n1 d2 n2 sel fp d3 n3 d4 n4 g4 vde2
                  unfolding createEcosystemTables_def sc1_def [symmetric] sc2_def [symmetric]
                    Let_def
                  by simp
              next
                case False
                obtain e5 w5 where d5:
                  "SysRollback E (''{'' @ dq ''Type'' @ '': '' @ dq ''NewEcosystem'' @ ''}'') w4 =
                     (e5, w5)"
                  by (metis surj_pair)
                have g5: "grows (VDE sc) w0 w5 \<and> list_ex is_SysRollback (issued w0 w5)"
                  using grows_SysRollback [OF g4 False d5] .
                show ?thesis
                  using d1 n1 d2 n2 sel fp d3 n3 d4 n4 d5 g5 vde2 False
                  unfolding createEcosystemTables_def sc1_def [symmetric] sc2_def [symmetric]
                    Let_def
                  by (cases e5) simp_all
              qed
            qed
          qed
        qed
      qed
    qed
  qed
qed

lemma CreateEcosystem_grows:
  "case CreateEcosystem E sc wallet name w of
     (r, sc', w') \<Rightarrow>
       grows (VDE sc) w w' \<and>
       (succeeded r \<and> \<not> VDE sc \<longrightarrow> list_ex is_SysRollback (issued w w'))"
proof (cases "TxContract_Name sc \<noteq> ''@1NewEcosystem''")
  case True
  then show ?thesis
    by (simp add: CreateEcosystem_def grows_log grows_refl succeeded_def)
next
  case False
  note gate = this
  show ?thesis
  proof (cases "StateParameter_Get E (calls w) ''1'' ''founder_account''")
    case (Inl err)
    then show ?thesis
      using gate by (simp add: CreateEcosystem_def grows_log grows_refl succeeded_def)
  next
    case (Inr sp)
    note get = this
    obtain found founder where sp: "sp = (found, founder)" by (cases sp)
    show ?thesis
    proof (cases "\<not> found \<or> length founder = 0")
      case True
      then show ?thesis
        using gate get sp by (simp add: CreateEcosystem_def grows_log grows_refl succeeded_def)
    next
      case False
      note fnd = this
      show ?thesis
      proof (cases "GetNextID E (calls w) ''1_ecosystems''")
        case (Inl err)
        then show ?thesis
          using gate get sp fnd
          by (simp add: CreateEcosystem_def grows_log grows_refl succeeded_def)
      next
        case (Inr eid)
        note nid = this
        have g1: "grows (VDE sc) w
            (host (Call_ExecSchemaEcosystem eid wallet name (StrToInt64 E founder)) w)"
          by (rule grows_host [OF grows_refl]) simp
        have g2: "grows (VDE sc) w
            (host (Call_LoadContract (Int64ToStr E eid))
               (host (Call_ExecSchemaEcosystem eid wallet name (StrToInt64 E founder)) w))"
          by (rule grows_host [OF g1]) simp
        show ?thesis
        proof (cases "ret_ExecSchemaEcosystem E
                  (calls w @ [Call_ExecSchemaEcosystem eid wallet name (StrToInt64 E founder)])")
          case (Some err)
          then show ?thesis
            using gate get sp fnd nid g1
            by (simp add: CreateEcosystem_def Let_def grows_log succeeded_def)
        next
          case None
          note ex = this
          show ?thesis
          proof (cases "ret_LoadContract E
                    (calls w @ [Call_ExecSchemaEcosystem eid wallet name (StrToInt64 E founder),
                                Call_LoadContract (Int64ToStr E eid)])")
            case (Some err)
            then show ?thesis
              using gate get sp fnd nid ex g2
              by (simp add: CreateEcosystem_def Let_def succeeded_def)
          next
            case None
            have "CreateEcosystem E sc wallet name w =
                    createEcosystemTables E sc wallet name eid (Int64ToStr E eid)
                      (host (Call_LoadContract (Int64ToStr E eid))
                         (host (Call_ExecSchemaEcosystem eid wallet name (StrToInt64 E founder)) w))"
              using gate get sp fnd nid ex None
              by (simp add: CreateEcosystem_def Let_def)
            then show ?thesis
              using createEcosystemTables_grows [OF g2, of E wallet name eid "Int64ToStr E eid"]
              by simp
          qed
        qed
      qed
    qed
  qed
qed

lemma SysRollback_not_plain: "is_SysRollback c \<Longrightarrow> \<not> plain_call c"
  by (cases c) simp_all

lemma grows_logRollback:
  "grows vde w w' \<Longrightarrow> list_all (logRollback_is b) (issued w w')"
proof -
  have "plain_call c \<or> (is_SysRollback c \<and> \<not> vde) \<Longrightarrow> logRollback_is b c" for c
    by (cases c) simp_all
  then show "grows vde w w' \<Longrightarrow> list_all (logRollback_is b) (issued w w')"
    using grows_issued [of vde w w'] by (auto simp: list_all_iff)
qed

lemma grows_SysRollback_only:
  "grows vde w w' \<Longrightarrow> list_ex is_SysRollback (issued w w') \<Longrightarrow> \<not> vde"
  using grows_issued [of vde w w'] SysRollback_not_plain
  by (auto simp: list_all_iff list_ex_iff)

lemma quiet_no_journal:
  "list_all (logRollback_is False) tr \<Longrightarrow> \<not> list_ex is_SysRollback tr \<Longrightarrow>
     \<not> list_ex requests_journal tr"
proof -
  have "logRollback_is False c \<Longrightarrow> \<not> is_SysRollback c \<Longrightarrow> \<not> requests_journal c" for c
    by (cases c) simp_all
  then show "list_all (logRollback_is False) tr \<Longrightarrow> \<not> list_ex is_SysRollback tr \<Longrightarrow>
     \<not> list_ex requests_journal tr"
    by (auto simp: list_all_iff list_ex_iff)
qed

text \<open>
  C5, as amended. For the state-writing host operations \<open>UpdateSysParam\<close>,
  \<open>DBUpdateExt\<close>, \<open>Activate\<close>, \<open>Deactivate\<close> and \<open>CreateEcosystem\<close>: when the call
  context has \<open>VDE = true\<close>, no entry of the rollback journal is requested (every
  \<open>logRollback\<close> argument passed to \<open>selectiveLoggingAndUpd\<close> is false and
  \<open>SysRollback\<close> is not invoked). In \<open>UpdateSysParam\<close> and \<open>DBUpdateExt\<close> the
  \<open>logRollback\<close> argument is true exactly when \<open>Rollback = true\<close> and
  \<open>VDE = false\<close>, and \<open>SysRollback\<close> is never invoked. \<open>Activate\<close> and
  \<open>Deactivate\<close> invoke \<open>SysRollback\<close> exactly when the caller passes the gate and
  \<open>VDE = false\<close>, and a successful \<open>CreateEcosystem\<close> invokes it exactly when
  \<open>VDE = false\<close>: in these three the rollback flag of the context is not consulted.
\<close>

theorem journal_requests:
  "(case UpdateSysParam E sc name val conditions w of
      (r, sc', w') \<Rightarrow>
        list_all (logRollback_is (\<not> VDE sc \<and> Rollback sc)) (issued w w') \<and>
        \<not> list_ex is_SysRollback (issued w w') \<and>
        (VDE sc \<longrightarrow> \<not> list_ex requests_journal (issued w w'))) \<and>
   (case DBUpdateExt E sc tblname column v params vals w of
      (r, w') \<Rightarrow>
        list_all (logRollback_is (\<not> VDE sc \<and> Rollback sc)) (issued w w') \<and>
        \<not> list_ex is_SysRollback (issued w w') \<and>
        (VDE sc \<longrightarrow> \<not> list_ex requests_journal (issued w w'))) \<and>
   (case Activate E sc tblid state w of
      (r, w') \<Rightarrow>
        list_all (logRollback_is False) (issued w w') \<and>
        list_ex is_SysRollback (issued w w') =
          (TxContract_Name sc \<in> {''@1ActivateContract'', ''@1DeactivateContract''} \<and> \<not> VDE sc) \<and>
        (VDE sc \<longrightarrow> \<not> list_ex requests_journal (issued w w'))) \<and>
   (case Deactivate E sc tblid state w of
      (r, w') \<Rightarrow>
        list_all (logRollback_is False) (issued w w') \<and>
        list_ex is_SysRollback (issued w w') =
          (TxContract_Name sc \<in> {''@1ActivateContract'', ''@1DeactivateContract''} \<and> \<not> VDE sc) \<and>
        (VDE sc \<longrightarrow> \<not> list_ex requests_journal (issued w w'))) \<and>
   (case CreateEcosystem E sc wallet ename w of
      (r, sc', w') \<Rightarrow>
        list_all (logRollback_is False) (issued w w') \<and>
        (succeeded r \<longrightarrow> list_ex is_SysRollback (issued w w') = (\<not> VDE sc)) \<and>
        (VDE sc \<longrightarrow> \<not> list_ex requests_journal (issued w w')))"
proof (intro conjI)
  show "case UpdateSysParam E sc name val conditions w of
      (r, sc', w') \<Rightarrow>
        list_all (logRollback_is (\<not> VDE sc \<and> Rollback sc)) (issued w w') \<and>
        \<not> list_ex is_SysRollback (issued w w') \<and>
        (VDE sc \<longrightarrow> \<not> list_ex requests_journal (issued w w'))"
    using UpdateSysParam_journal [of sc w E name val conditions]
      quiet_no_journal [of "issued w (snd (snd (UpdateSysParam E sc name val conditions w)))"]
    by (cases "UpdateSysParam E sc name val conditions w") auto
next
  show "case DBUpdateExt E sc tblname column v params vals w of
      (r, w') \<Rightarrow>
        list_all (logRollback_is (\<not> VDE sc \<and> Rollback sc)) (issued w w') \<and>
        \<not> list_ex is_SysRollback (issued w w') \<and>
        (VDE sc \<longrightarrow> \<not> list_ex requests_journal (issued w w'))"
    using DBUpdateExt_journal [of sc w E tblname column v params vals]
      quiet_no_journal [of "issued w (snd (DBUpdateExt E sc tblname column v params vals w))"]
    by (cases "DBUpdateExt E sc tblname column v params vals w") auto
next
  have acc: "accessContracts sc [nActivateContract, nDeactivateContract] =
      (TxContract_Name sc \<in> {''@1ActivateContract'', ''@1DeactivateContract''})"
    by (simp add: accessContracts_def nActivateContract_def nDeactivateContract_def)
  show "case Activate E sc tblid state w of
      (r, w') \<Rightarrow>
        list_all (logRollback_is False) (issued w w') \<and>
        list_ex is_SysRollback (issued w w') =
          (TxContract_Name sc \<in> {''@1ActivateContract'', ''@1DeactivateContract''} \<and> \<not> VDE sc) \<and>
        (VDE sc \<longrightarrow> \<not> list_ex requests_journal (issued w w'))"
    using Activate_journal [of w E sc tblid state] acc
      quiet_no_journal [of "issued w (snd (Activate E sc tblid state w))"]
    by (cases "Activate E sc tblid state w") auto
  show "case Deactivate E sc tblid state w of
      (r, w') \<Rightarrow>
        list_all (logRollback_is False) (issued w w') \<and>
        list_ex is_SysRollback (issued w w') =
          (TxContract_Name sc \<in> {''@1ActivateContract'', ''@1DeactivateContract''} \<and> \<not> VDE sc) \<and>
        (VDE sc \<longrightarrow> \<not> list_ex requests_journal (issued w w'))"
    using Deactivate_journal [of w E sc tblid state] acc
      quiet_no_journal [of "issued w (snd (Deactivate E sc tblid state w))"]
    by (cases "Deactivate E sc tblid state w") auto
next
  obtain r sc' w' where c: "CreateEcosystem E sc wallet ename w = (r, sc', w')"
    by (cases "CreateEcosystem E sc wallet ename w")
  have g: "grows (VDE sc) w w'"
    and s: "succeeded r \<and> \<not> VDE sc \<longrightarrow> list_ex is_SysRollback (issued w w')"
    using CreateEcosystem_grows [where E = E and sc = sc and wallet = wallet and name = ename
        and w = w] c
    by simp_all
  have "list_all (logRollback_is False) (issued w w')"
    using g by (rule grows_logRollback)
  moreover have "list_ex is_SysRollback (issued w w') \<longrightarrow> \<not> VDE sc"
    using g grows_SysRollback_only by blast
  moreover have "VDE sc \<longrightarrow> \<not> list_ex requests_journal (issued w w')"
    using calculation quiet_no_journal by blast
  ultimately show "case CreateEcosystem E sc wallet ename w of
      (r, sc', w') \<Rightarrow>
        list_all (logRollback_is False) (issued w w') \<and>
        (succeeded r \<longrightarrow> list_ex is_SysRollback (issued w w') = (\<not> VDE sc)) \<and>
        (VDE sc \<longrightarrow> \<not> list_ex requests_journal (issued w w'))"
    using c s by auto
qed

text \<open>
  In VDE mode \<open>Activate\<close> requests no journal entry; in consensus mode a successful
  \<open>CreateEcosystem\<close> invokes \<open>SysRollback\<close>.
\<close>

theorem journal_requests_witness:
  "VDE vde_sc \<and>
   \<not> list_ex requests_journal (issued empty_world (snd (Activate demo_env vde_sc 7 1 empty_world))) \<and>
   succeeded (fst (CreateEcosystem demo_env new_ecosystem_sc 9 ''eco'' empty_world)) \<and>
   list_ex is_SysRollback
     (issued empty_world (snd (snd (CreateEcosystem demo_env new_ecosystem_sc 9 ''eco'' empty_world))))"
proof -
  have vde: "VDE vde_sc" and cons: "\<not> VDE new_ecosystem_sc"
    by (simp_all add: vde_sc_def new_ecosystem_sc_def demo_sc_def)
  have ok: "succeeded (fst (CreateEcosystem demo_env new_ecosystem_sc 9 ''eco'' empty_world))"
    by (simp add: CreateEcosystem_def createEcosystemTables_def new_ecosystem_sc_def demo_sc_def
        demo_env_def DBInsert_def SysRollback_def firstPub_def Let_def succeeded_def word_sless_alt)
  show ?thesis
    using journal_requests [where sc = vde_sc and E = demo_env and w = empty_world and tblid = 7
        and state = 1 and name = "[]" and val = "[]" and conditions = "[]" and tblname = "[]"
        and column = "[]" and v = DNil and params = "[]" and vals = "[]" and wallet = 9
        and ename = "''eco''"]
      journal_requests [where sc = new_ecosystem_sc and E = demo_env and w = empty_world
        and tblid = 7 and state = 1 and name = "[]" and val = "[]" and conditions = "[]"
        and tblname = "[]" and column = "[]" and v = DNil and params = "[]" and vals = "[]"
        and wallet = 9 and ename = "''eco''"]
      ok vde cons
    by (simp add: case_prod_beta)
qed

text \<open>
  C5 as the claim states it fails: in consensus mode with the rollback flag off,
  \<open>Activate\<close> called from \<open>@1ActivateContract\<close> requests a journal entry through
  \<open>SysRollback\<close>, although not both \<open>Rollback = true\<close> and \<open>VDE = false\<close> hold.
\<close>

theorem journal_requests_counterexample:
  "\<not> Rollback activating_sc \<and> \<not> VDE activating_sc \<and>
   list_ex requests_journal
     (issued empty_world (snd (Activate demo_env activating_sc 7 1 empty_world)))"
  by (simp add: activating_sc_def demo_sc_def Activate_def accessContracts_def
      nActivateContract_def SysRollback_def issued_def empty_world_def)

section \<open>The cost of a host function\<close>

lemma table_names_distinct: "distinct (map fst extendCostSysParams)"
  by (simp add: extendCostSysParams_def)

lemma table_keys_prefixed:
  "list_all (\<lambda>(n, key). strings_HasPrefix key ''extend_cost_'') extendCostSysParams"
  by (simp add: extendCostSysParams_def strings_HasPrefix_def)

text \<open>
  C6, as amended. For every host-function name \<open>n\<close> that the table
  \<open>extendCostSysParams\<close> lists with the parameter \<open>key\<close> (a name that starts with
  \<open>extend_cost_\<close>), \<open>getCostP(n)\<close> returns the value of the system parameter
  \<open>key\<close> when that parameter exists and -1 otherwise; for every name that the table
  does not list it returns -1, whichever parameters exist.
\<close>

theorem getCostP_table:
  "(\<forall>key. (n, key) \<in> set extendCostSysParams \<longrightarrow>
      strings_HasPrefix key ''extend_cost_'' \<and>
      getCostP HasSys SysInt64 n = (if HasSys key then SysInt64 key else - 1)) \<and>
   (n \<notin> fst ` set extendCostSysParams \<longrightarrow> getCostP HasSys SysInt64 n = - 1)"
proof (intro conjI allI impI)
  fix key
  assume m: "(n, key) \<in> set extendCostSysParams"
  then show "strings_HasPrefix key ''extend_cost_''"
    using table_keys_prefixed by (auto simp: list_all_iff)
  have "map_of extendCostSysParams n = Some key"
    using m table_names_distinct by simp
  then show "getCostP HasSys SysInt64 n = (if HasSys key then SysInt64 key else - 1)"
    by (simp add: getCostP_def)
next
  assume "n \<notin> fst ` set extendCostSysParams"
  then have "map_of extendCostSysParams n = None"
    by (simp add: map_of_eq_None_iff)
  then show "getCostP HasSys SysInt64 n = - 1"
    by (simp add: getCostP_def)
qed

theorem getCostP_table_witness:
  "getCostP every_param_exists every_param_seven ''Substr'' = 7 \<and>
   getCostP (\<lambda>key. False) every_param_seven ''Substr'' = - 1 \<and>
   getCostP every_param_exists every_param_seven ''Split'' = - 1"
  using getCostP_table [of "''Substr''" every_param_exists every_param_seven]
    getCostP_table [of "''Substr''" "(\<lambda>key. False)" every_param_seven]
    getCostP_table [of "''Split''" every_param_exists every_param_seven]
  by (simp add: extendCostSysParams_def every_param_exists_def every_param_seven_def)

text \<open>
  C6 as the claim states it fails: with every system parameter present and equal to
  7, the parameter \<open>extend_cost_DBInsert\<close> exists, and \<open>getCostP("DBInsert")\<close> is -1.
\<close>

theorem getCostP_counterexample:
  "every_param_exists (extend_cost_name ''DBInsert'') \<and>
   every_param_seven (extend_cost_name ''DBInsert'') = 7 \<and>
   getCostP every_param_exists every_param_seven ''DBInsert'' = - 1"
  by (simp add: getCostP_def extendCostSysParams_def every_param_exists_def
      every_param_seven_def)

section \<open>Substr\<close>

text \<open>
  Where the sum \<open>off + slen\<close> does not overflow, \<open>Substr\<close> clamps as the
  specification says.
\<close>

lemma Substr_no_overflow:
  assumes len: "length s < 2 ^ 63" and sum: "sint off + sint slen < 2 ^ 63"
  shows "Substr s off slen =
     Return (if sint off < 0 \<or> sint slen < 0 \<or> int (length s) < sint off then []
             else take (min (nat (sint slen)) (length s - nat (sint off)))
                    (drop (nat (sint off)) s))"
proof -
  have ilen: "sint (word_of_nat (length s) :: int64) = int (length s)"
    using len by (simp add: signed_of_nat signed_take_bit_int_eq_self)
  show ?thesis
  proof (cases "sint off < 0 \<or> sint slen < 0 \<or> int (length s) < sint off")
    case True
    then show ?thesis by (auto simp: Substr_def word_sless_alt ilen)
  next
    case False
    then have nn: "0 \<le> sint off" "0 \<le> sint slen" "sint off \<le> int (length s)" by auto
    have add: "sint (off + slen) = sint off + sint slen"
      using nn sum by (simp add: sint_word_ariths signed_take_bit_int_eq_self)
    show ?thesis
      using False nn
      by (auto simp: Substr_def word_sless_alt ilen add go_slice_def go_slice_from_def Let_def
          min_def nat_add_distrib)
  qed
qed

text \<open>
  C7. The claim says that \<open>Substr\<close> never panics. The code panics where
  \<open>off + slen\<close> overflows: \<open>Substr("abc", 1, 9223372036854775807)\<close> passes the
  three checks of line 521, the sum wraps around to the least \<open>int64\<close>, which is not
  greater than the length, and the slice \<open>s[1:-9223372036854775808]\<close> is out of
  range.
\<close>

theorem Substr_overflow_panics: "Substr ''abc'' 1 9223372036854775807 = Panics"
  by (simp add: Substr_def go_slice_def go_slice_from_def word_sless_alt)

section \<open>Report tables\<close>

text \<open>
  C8, as amended. For every table name whose resolved form contains \<open>_reports_\<close>,
  \<open>DBUpdateExt\<close> returns an error before it calls \<open>selectiveLoggingAndUpd\<close>, so that
  no row is updated and no journal entry is written: the error is
  \<open>Access denied to report table\<close> when \<open>AccessTable\<close> lets the update through,
  and the error of \<open>AccessTable\<close> otherwise.
\<close>

theorem reports_table_read_only:
  assumes "strings_Contains (getDefTableName E sc tblname) ''_reports_''"
  shows "case DBUpdateExt E sc tblname column v params val w of
           ((qcost, err), w') \<Rightarrow>
             qcost = 0 \<and> err \<noteq> None \<and> w' = w \<and>
             (if AccessTable E (calls w) sc (getDefTableName E sc tblname) ''update'' = None
              then err = Some (Errorf ''Access denied to report table'')
              else err = AccessTable E (calls w) sc (getDefTableName E sc tblname) ''update'')"
  using assms by (auto simp: DBUpdateExt_def Let_def split: option.split)

theorem reports_table_read_only_witness:
  "DBUpdateExt demo_env demo_sc ''x_reports_y'' ''id'' (DInt64 1) ''name'' [DString ''a'']
     empty_world = ((0, Some (Errorf ''Access denied to report table'')), empty_world)"
  using reports_table_read_only [where E = demo_env and sc = demo_sc
      and tblname = "''x_reports_y''" and column = "''id''" and v = "DInt64 1"
      and params = "''name''" and val = "[DString ''a'']" and w = empty_world]
  by (auto simp: demo_env_def strings_HasPrefix_def split: prod.splits)

text \<open>
  C8 as the claim states it fails: where \<open>AccessTable\<close> turns the caller away, the
  error returned for a report table is its error, not
  \<open>Access denied to report table\<close>.
\<close>

theorem reports_table_read_only_counterexample:
  "strings_Contains (getDefTableName closed_tables_env demo_sc ''x_reports_y'') ''_reports_'' \<and>
   DBUpdateExt closed_tables_env demo_sc ''x_reports_y'' ''id'' (DInt64 1) ''name''
     [DString ''a''] empty_world = ((0, Some errAccessDenied), empty_world) \<and>
   errAccessDenied \<noteq> Errorf ''Access denied to report table''"
  by (simp add: DBUpdateExt_def closed_tables_env_def demo_env_def strings_HasPrefix_def)

section \<open>Contracts without additional signatures\<close>

text \<open>
  C9. For every contract whose row in the signatures table of its ecosystem is absent
  or has an empty value (the query gives the empty string), \<open>CheckSignature\<close> returns
  nil: whatever the \<open>Signature\<close> entry of the variables is, it is not decoded, and
  whatever \<open>CheckSign\<close> would answer, no signature is verified. The variables carry
  the call context under \<open>sc\<close>, as the VM sets them up.
\<close>

theorem CheckSignature_no_signatures:
  assumes "i ''sc'' = Some (DSmartContract sc)"
    and "Single_String E (calls w)
           (''select value from '' @
              dq (Int64ToStr E (ucast (fst (ParseContract E name))) @ ''_signatures'') @
              '' where name=?'')
           (snd (ParseContract E name)) = Inr []"
  shows "CheckSignature (E\<lparr>CheckSign := verify\<rparr>) (i(''Signature'' := signature)) name w =
           (Return None, w)"
  using assms by (cases "ParseContract E name") (simp add: CheckSignature_def Let_def)

theorem CheckSignature_no_signatures_witness:
  "CheckSignature (demo_env\<lparr>CheckSign := (\<lambda>keys forsign sign nosize. Inr False)\<rparr>)
     ([''sc'' \<mapsto> DSmartContract demo_sc](''Signature'' := None)) ''@1TransferMoney'' empty_world
   = (Return None, empty_world)"
  using CheckSignature_no_signatures [where i = "[''sc'' \<mapsto> DSmartContract demo_sc]"
      and sc = demo_sc and E = demo_env and w = empty_world and name = "''@1TransferMoney''"
      and verify = "(\<lambda>keys forsign sign nosize. Inr False)" and signature = None]
  by (simp add: demo_env_def)

section \<open>PubToID\<close>

lemma table_keys: "map fst reverseHexTable = ''0123456789abcdefABCDEF''"
  by (simp add: reverseHexTable_def upt_rec)

lemma fromHexChar_None: "(fromHexChar c = None) = (\<not> is_hex_digit c)"
  unfolding fromHexChar_def is_hex_digit_def map_of_eq_None_iff
  using table_keys by (metis set_map)

text \<open>\<open>hex.DecodeString\<close> returns no error exactly on valid hexadecimal.\<close>

lemma hex_DecodeString_ok: "(snd (hex_DecodeString s) = None) = valid_hex s"
proof (induction s rule: hex_DecodeString.induct)
  case 1
  show ?case by (simp add: valid_hex_def)
next
  case (2 p)
  show ?case by (simp add: valid_hex_def split: option.split)
next
  case (3 p q src)
  show ?case
  proof (cases "fromHexChar p")
    case None
    then show ?thesis using fromHexChar_None [of p] by (simp add: valid_hex_def)
  next
    case (Some a)
    note a = this
    show ?thesis
    proof (cases "fromHexChar q")
      case None
      then show ?thesis using a fromHexChar_None [of q] by (simp add: valid_hex_def)
    next
      case (Some b)
      then show ?thesis
        using a "3.IH" [OF a Some] fromHexChar_None [of p] fromHexChar_None [of q]
        by (auto simp: valid_hex_def split: prod.split)
    qed
  qed
qed

text \<open>
  C10. For every input string that is not valid hexadecimal, \<open>PubToID\<close> returns 0
  (it has no error result and does not panic); a caller cannot tell such an input from
  a valid key whose address is 0: \<open>PubToID\<close> gives the same result for both.
\<close>

theorem PubToID_invalid_hex:
  assumes "\<not> valid_hex s"
  shows "PubToID Address s = 0 \<and>
     (\<forall>t. valid_hex t \<and> Address (fst (hex_DecodeString t)) = 0 \<longrightarrow>
          PubToID Address t = PubToID Address s)"
proof -
  have bad: "snd (hex_DecodeString s) \<noteq> None"
    using assms hex_DecodeString_ok [of s] by simp
  then have z: "PubToID Address s = 0"
    by (cases "hex_DecodeString s") (auto simp: PubToID_def)
  have "PubToID Address t = 0" if "valid_hex t" and "Address (fst (hex_DecodeString t)) = 0" for t
    using that hex_DecodeString_ok [of t]
    by (cases "hex_DecodeString t") (auto simp: PubToID_def)
  then show ?thesis using z by simp
qed

theorem PubToID_invalid_hex_witness:
  "\<not> valid_hex ''xyz'' \<and> PubToID zero_Address ''xyz'' = 0 \<and>
   valid_hex ''00ff'' \<and> PubToID zero_Address ''00ff'' = PubToID zero_Address ''xyz'' \<and>
   PubToID zero_Address ''0a'' = 11"
proof -
  have bad: "\<not> valid_hex ''xyz''"
    by (simp add: valid_hex_def)
  have good: "valid_hex ''00ff''" and dec: "hex_DecodeString ''00ff'' = ([0, 255], None)"
    and dec2: "hex_DecodeString ''0a'' = ([10], None)"
    by (simp_all add: valid_hex_def is_hex_digit_def fromHexChar_def reverseHexTable_def upt_rec)
  show ?thesis
    using PubToID_invalid_hex [OF bad, of zero_Address] bad good dec dec2
    by (auto simp: zero_Address_def PubToID_def)
qed

end
